theory Spec2Isabelle
  imports Main "HOL-Library.Sublist"
begin

section \<open>pycuda/elementwise.py: the elementwise kernel specialiser\<close>

text \<open>
  A shallow embedding of \<^verbatim>\<open>ElementwiseSourceModule\<close> (src/pycuda/elementwise.py):
  the layout classifier \<^verbatim>\<open>_precalc_array_info\<close>, the cache key \<^verbatim>\<open>create_key\<close>,
  the planner and emitter \<^verbatim>\<open>create_source\<close>, and the meaning of the index
  statements that \<^verbatim>\<open>create_source\<close> emits into the kernel
  (\<^verbatim>\<open>loop_inds_calc\<close>, \<^verbatim>\<open>loop_inds_inc\<close>).

  Python integers and the entries of numpy's int64 arrays are \<open>int\<close>. In the kernel text an
  \<^verbatim>\<open>unsigned\<close> variable holds 32 bits and wraps, a sum or difference of integer literals is
  evaluated in 32-bit \<^verbatim>\<open>int\<close> when both operands are of that type, and a \<^verbatim>\<open>long\<close> variable
  (64 bits where the kernel runs) is an \<open>int\<close>: an offset into device memory stays far
  inside 64 bits.
  A Python exception is a value \<open>Inl e\<close> of a sum type.
\<close>

subsection \<open>Exceptions and numpy arithmetic\<close>

datatype error =
    ShapeMismatch       \<comment> \<open>line 135: \<^verbatim>\<open>raise Exception("All input arrays ... same shape ...")\<close>\<close>
  | InvalidGeometry     \<comment> \<open>line 158: \<^verbatim>\<open>raise Exception("Grid (%s) and block (%s) ...")\<close>\<close>
  | AssertionError
  | IndexError
  | TypeError
  | ValueError
  | AttributeError

text \<open>
  numpy's \<^verbatim>\<open>%\<close> and \<^verbatim>\<open>//\<close> on int64 round towards minus infinity, as \<open>mod\<close> and
  \<open>div\<close> on \<open>int\<close> do; a zero divisor gives 0 (with a warning), not an exception.
\<close>

definition np_mod :: "int \<Rightarrow> int \<Rightarrow> int" where
  "np_mod a b = (if b = 0 then 0 else a mod b)"

definition np_floordiv :: "int \<Rightarrow> int \<Rightarrow> int" where
  "np_floordiv a b = (if b = 0 then 0 else a div b)"

text \<open>
  The product \<^verbatim>\<open>a * b\<close> of two one-dimensional arrays: elementwise when the lengths
  agree, broadcast when one of them has length 1, \<^verbatim>\<open>ValueError\<close> otherwise.
\<close>

definition np_mul :: "int list \<Rightarrow> int list \<Rightarrow> error + int list" where
  "np_mul a b =
     (if length a = length b then Inr (map2 (*) a b)
      else if length a = 1 then Inr (map (\<lambda>y. hd a * y) b)
      else if length b = 1 then Inr (map (\<lambda>x. x * hd b) a)
      else Inl ValueError)"

subsection \<open>The traversal planner (create_source, lines 277-311)\<close>

text \<open>
  Lines 284-289. \<^verbatim>\<open>block_step\<close> starts as a copy of the shape array and is
  overwritten in place, one dimension per round; \<^verbatim>\<open>tmpnumthreads\<close> is divided on.
  \<^verbatim>\<open>
  block_step = np.array(shapearr)
  tmpnumthreads = numthreads
  for dimnum in range(ndim):
      newstep = tmpnumthreads % block_step[dimnum]
      tmpnumthreads = tmpnumthreads // block_step[dimnum]
      block_step[dimnum] = newstep
  \<close>
\<close>

definition block_step_dim :: "nat \<Rightarrow> int \<times> int list \<Rightarrow> int \<times> int list" where
  "block_step_dim dimnum st =
     (case st of (tmpnumthreads, block_step) \<Rightarrow>
        let newstep = np_mod tmpnumthreads (block_step ! dimnum);
            tmpnumthreads' = np_floordiv tmpnumthreads (block_step ! dimnum)
        in (tmpnumthreads', block_step[dimnum := newstep]))"

definition block_step_of :: "int \<Rightarrow> int list \<Rightarrow> int list" where
  "block_step_of numthreads shapearr =
     snd (fold block_step_dim [0..<length shapearr] (numthreads, shapearr))"

text \<open>
  The specification's reading of one entry of the block step: the thread count divided
  (rounding down) by the product of the sizes of the dimensions below \<open>d\<close>, modulo the
  size of dimension \<open>d\<close>. This definition follows the specification's words; it is the
  digit \<open>d\<close> of a number in the mixed radix given by the shape, and is used below for
  flat positions as well.
\<close>

definition block_step_spec :: "int \<Rightarrow> int list \<Rightarrow> nat \<Rightarrow> int" where
  "block_step_spec numthreads shape d =
     (numthreads div prod_list (take d shape)) mod (shape ! d)"

text \<open>
  Lines 290-311. One entry of \<^verbatim>\<open>arrayarginfos\<close> is the tuple
  \<^verbatim>\<open>(arg_name, elemstrides, dimelemstrides, blockelemstrides, inforef)\<close>.
\<close>

record arrayarginfo =
  ai_name :: string
  ai_elemstrides :: "int list"
  ai_dimelemstrides :: "int list"
  ai_blockelemstrides :: "int list"
  ai_inforef :: "nat option"

text \<open>
  Lines 292-296: \<^verbatim>\<open>strides = [0] * ndim\<close>, then the slice assignment
  \<^verbatim>\<open>strides[0:len(arg_strides)] = arg_strides\<close> (reversed when \<^verbatim>\<open>do_reverse\<close>).
  The slice assignment replaces the first \<^verbatim>\<open>len(arg_strides)\<close> entries and keeps the
  zeros after them; a longer \<^verbatim>\<open>arg_strides\<close> replaces the whole list.
\<close>

definition padded_strides :: "nat \<Rightarrow> bool \<Rightarrow> int list \<Rightarrow> int list" where
  "padded_strides ndim do_reverse arg_strides =
     (let src = (if do_reverse then rev arg_strides else arg_strides)
      in src @ drop (length src) (replicate ndim 0))"

text \<open>
  Lines 301-304: the scan for an earlier argument with the same element strides. The
  loop has no \<^verbatim>\<open>break\<close>, so \<^verbatim>\<open>inforef\<close> ends as the index of the last match.
\<close>

definition find_inforef :: "int list \<Rightarrow> arrayarginfo list \<Rightarrow> nat option" where
  "find_inforef elemstrides arrayarginfos =
     fold (\<lambda>(i, arrayarginfo) inforef.
             if elemstrides = ai_elemstrides arrayarginfo then Some i else inforef)
          (enumerate 0 arrayarginfos) None"

record planstate =
  arrayindnames :: "string list"
  arrayrefnames :: "(string \<times> string) list"
  arrayarginfos :: "arrayarginfo list"

text \<open>The body of the loop of line 291, for one \<^verbatim>\<open>(arg_name, arg_itemsize, arg_strides)\<close>.\<close>

definition plan_arg ::
  "nat \<Rightarrow> bool \<Rightarrow> int list \<Rightarrow> int list \<Rightarrow> string \<times> int \<times> int list \<Rightarrow> planstate
     \<Rightarrow> error + planstate" where
  "plan_arg ndim do_reverse shapearr block_step arg st =
     (case arg of (arg_name, arg_itemsize, arg_strides) \<Rightarrow>
        let strides = padded_strides ndim do_reverse arg_strides;
            elemstrides = map (\<lambda>s. np_floordiv s arg_itemsize) strides
        in case np_mul elemstrides shapearr of
             Inl e \<Rightarrow> Inl e
           | Inr dimelemstrides \<Rightarrow>
               (case np_mul elemstrides block_step of
                  Inl e \<Rightarrow> Inl e
                | Inr blockelemstrides \<Rightarrow>
                    let inforef = find_inforef elemstrides (arrayarginfos st)
                    in Inr \<lparr> arrayindnames =
                               (case inforef of
                                  None \<Rightarrow> arrayindnames st @ [arg_name]
                                | Some i \<Rightarrow> arrayindnames st),
                             arrayrefnames =
                               (case inforef of
                                  None \<Rightarrow> arrayrefnames st
                                | Some i \<Rightarrow>
                                    arrayrefnames st @ [(arg_name, ai_name (arrayarginfos st ! i))]),
                             arrayarginfos = arrayarginfos st @
                               [\<lparr> ai_name = arg_name, ai_elemstrides = elemstrides,
                                  ai_dimelemstrides = dimelemstrides,
                                  ai_blockelemstrides = blockelemstrides,
                                  ai_inforef = inforef \<rparr>] \<rparr>))"

fun plan_args ::
  "nat \<Rightarrow> bool \<Rightarrow> int list \<Rightarrow> int list \<Rightarrow> (string \<times> int \<times> int list) list \<Rightarrow> planstate
     \<Rightarrow> error + planstate" where
  "plan_args ndim do_reverse shapearr block_step [] st = Inr st"
| "plan_args ndim do_reverse shapearr block_step (arg # args) st =
     (case plan_arg ndim do_reverse shapearr block_step arg st of
        Inl e \<Rightarrow> Inl e
      | Inr st' \<Rightarrow> plan_args ndim do_reverse shapearr block_step args st')"

text \<open>
  What lines 279-311 compute from the canonical shape, the reversal decision, the
  thread count \<^verbatim>\<open>block[0] * grid[0]\<close> and \<^verbatim>\<open>argnamestrides\<close>: the numbers and names
  that the emitter then writes into the kernel text.
\<close>

record plan =
  pl_ndim :: nat
  pl_shape :: "int list"
  pl_block_step :: "int list"
  pl_arrayindnames :: "string list"
  pl_arrayrefnames :: "(string \<times> string) list"
  pl_arrayarginfos :: "arrayarginfo list"

definition traversal_plan ::
  "int list \<Rightarrow> bool \<Rightarrow> int \<Rightarrow> (string \<times> int \<times> int list) list \<Rightarrow> error + plan" where
  "traversal_plan shape0 do_reverse numthreads argnamestrides =
     (let ndim = length shape0;
          shape = (if do_reverse then rev shape0 else shape0);
          shapearr = shape;
          block_step = block_step_of numthreads shapearr
      in case plan_args ndim do_reverse shapearr block_step argnamestrides
                \<lparr> arrayindnames = [], arrayrefnames = [], arrayarginfos = [] \<rparr> of
           Inl e \<Rightarrow> Inl e
         | Inr st \<Rightarrow>
             Inr \<lparr> pl_ndim = ndim, pl_shape = shape, pl_block_step = block_step,
                   pl_arrayindnames = arrayindnames st,
                   pl_arrayrefnames = arrayrefnames st,
                   pl_arrayarginfos = arrayarginfos st \<rparr>)"

subsection \<open>C integer arithmetic of the emitted text\<close>

text \<open>
  The kernel declares \<^verbatim>\<open>unsigned _GLOBAL_i\<close> and \<^verbatim>\<open>unsigned int _TMP_GLOBAL_i\<close>: 32 bits,
  arithmetic modulo \<open>2 ^ 32\<close>. \<^verbatim>\<open>int\<close> is 32 bits in two's complement; C leaves its overflow
  undefined, the compiled kernel wraps.
\<close>

definition uint32 :: "int \<Rightarrow> int" where
  "uint32 v = v mod 2 ^ 32"

definition int32 :: "int \<Rightarrow> int" where
  "int32 v = (v + 2 ^ 31) mod 2 ^ 32 - 2 ^ 31"

text \<open>
  Every macro value is written with \<^verbatim>\<open>%d\<close>: a decimal literal, after a unary minus when
  the number is negative. A decimal literal without suffix has type \<^verbatim>\<open>int\<close> when its
  value fits, and \<^verbatim>\<open>long\<close> otherwise; so the macro for \<open>v\<close> is an \<^verbatim>\<open>int\<close> exactly when
  \<open>- 2 ^ 31 < v < 2 ^ 31\<close>. An expression is a pair of its type and its value.
\<close>

datatype ctype = CInt | CLong

definition c_lit :: "int \<Rightarrow> ctype \<times> int" where
  "c_lit v = (if - (2 ^ 31) < v \<and> v < 2 ^ 31 then CInt else CLong, v)"

text \<open>
  \<^verbatim>\<open>a + b\<close> and \<^verbatim>\<open>a - b\<close>: in \<^verbatim>\<open>int\<close> when both operands are, in \<^verbatim>\<open>long\<close> as soon as
  one of them is.
\<close>

definition c_add :: "ctype \<times> int \<Rightarrow> ctype \<times> int \<Rightarrow> ctype \<times> int" where
  "c_add a b =
     (if fst a = CInt \<and> fst b = CInt then (CInt, int32 (snd a + snd b))
      else (CLong, snd a + snd b))"

definition c_sub :: "ctype \<times> int \<Rightarrow> ctype \<times> int \<Rightarrow> ctype \<times> int" where
  "c_sub a b =
     (if fst a = CInt \<and> fst b = CInt then (CInt, int32 (snd a - snd b))
      else (CLong, snd a - snd b))"

text \<open>
  \<^verbatim>\<open>a0 + a1 + ... + an\<close> associates to the left. (For no operand at all the emitted
  statement is \<^verbatim>\<open>name_i += ;\<close>, which is not C; the value 0 stands for it, and the
  theorems below are about shapes of at least one dimension.)
\<close>

fun c_sum :: "(ctype \<times> int) list \<Rightarrow> ctype \<times> int" where
  "c_sum [] = (CInt, 0)"
| "c_sum (a # as) = fold (\<lambda>b acc. c_add acc b) as a"

subsection \<open>What the emitted index statements compute\<close>

text \<open>
  The kernel text refers to the planner's numbers through macros:
  \<^verbatim>\<open>SHAPE_d\<close> and \<^verbatim>\<open>BLOCK_STEP_d\<close> (lines 327-334), and for every entry of
  \<^verbatim>\<open>arrayarginfos\<close> \<^verbatim>\<open>ELEMSTRIDE_name_d\<close>, \<^verbatim>\<open>DIMELEMSTRIDE_name_d\<close>,
  \<^verbatim>\<open>BLOCKELEMSTRIDE_name_d\<close> (lines 335-344). A macro is looked up by the argument's
  name. (A name with no entry has no macro and the kernel does not compile; the value 0
  below is never read for a name of \<^verbatim>\<open>arrayindnames\<close>.)
\<close>

definition info_of :: "plan \<Rightarrow> string \<Rightarrow> arrayarginfo option" where
  "info_of P name = find (\<lambda>a. ai_name a = name) (pl_arrayarginfos P)"

definition ELEMSTRIDE :: "plan \<Rightarrow> string \<Rightarrow> nat \<Rightarrow> int" where
  "ELEMSTRIDE P name d = (case info_of P name of Some a \<Rightarrow> ai_elemstrides a ! d | None \<Rightarrow> 0)"

definition DIMELEMSTRIDE :: "plan \<Rightarrow> string \<Rightarrow> nat \<Rightarrow> int" where
  "DIMELEMSTRIDE P name d =
     (case info_of P name of Some a \<Rightarrow> ai_dimelemstrides a ! d | None \<Rightarrow> 0)"

definition BLOCKELEMSTRIDE :: "plan \<Rightarrow> string \<Rightarrow> nat \<Rightarrow> int" where
  "BLOCKELEMSTRIDE P name d =
     (case info_of P name of Some a \<Rightarrow> ai_blockelemstrides a ! d | None \<Rightarrow> 0)"

text \<open>
  The state of one thread's index bookkeeping: the per-dimension indices
  \<^verbatim>\<open>INDEX_0 .. INDEX_{ndim-1}\<close> (declared \<^verbatim>\<open>long\<close>, lines 359-372) and, for each name of
  \<^verbatim>\<open>arrayindnames\<close>, the flat offset \<^verbatim>\<open>name_i\<close> (declared \<^verbatim>\<open>long name_i = 0\<close>, lines
  349-352).
\<close>

record kstate =
  INDEX :: "int list"
  offs :: "string \<Rightarrow> int"

definition kernel_init :: "plan \<Rightarrow> kstate" where
  "kernel_init P = \<lparr> INDEX = replicate (pl_ndim P) 0, offs = (\<lambda>name. 0) \<rparr>"

text \<open>
  \<^verbatim>\<open>for name in arrayindnames: name_i += delta(name)\<close>, the shape of every statement
  group that updates the flat offsets.
\<close>

definition bump :: "string list \<Rightarrow> (string \<Rightarrow> int) \<Rightarrow> (string \<Rightarrow> int) \<Rightarrow> (string \<Rightarrow> int)" where
  "bump names delta f = fold (\<lambda>name g. g(name := g name + delta name)) names f"

text \<open>
  Lines 374-387, the one-time decomposition of the flat position \<^verbatim>\<open>_GLOBAL_i\<close>:
  \<^verbatim>\<open>
  unsigned int _TMP_GLOBAL_i = _GLOBAL_i;
  /* for each dimnum: */
  INDEX_d = _TMP_GLOBAL_i % SHAPE_d;
  _TMP_GLOBAL_i = _TMP_GLOBAL_i / SHAPE_d;
  /* for each name of arrayindnames: */
  name_i += INDEX_d * ELEMSTRIDE_name_d;
  \<close>
  \<^verbatim>\<open>_TMP_GLOBAL_i\<close> holds a number below \<open>2 ^ 32\<close>. For a positive \<^verbatim>\<open>SHAPE_d\<close> the
  remainder and the quotient of the unsigned value are \<open>mod\<close> and \<open>div\<close>, whichever of
  the two integer types the literal has, and the quotient is again below \<open>2 ^ 32\<close>. (For
  \<^verbatim>\<open>SHAPE_d\<close> 0 the C statement divides by zero; the theorems below are about positive
  sizes.) The product is computed in \<^verbatim>\<open>long\<close>, the type of \<^verbatim>\<open>INDEX_d\<close>.
\<close>

definition calc_dim :: "plan \<Rightarrow> nat \<Rightarrow> int \<times> kstate \<Rightarrow> int \<times> kstate" where
  "calc_dim P dimnum s =
     (case s of (tmp_global_i, st) \<Rightarrow>
        let idx = tmp_global_i mod (pl_shape P ! dimnum);
            tmp_global_i' = tmp_global_i div (pl_shape P ! dimnum);
            st1 = st\<lparr> INDEX := (INDEX st)[dimnum := idx] \<rparr>
        in (tmp_global_i',
            st1\<lparr> offs := bump (pl_arrayindnames P)
                            (\<lambda>name. idx * ELEMSTRIDE P name dimnum) (offs st1) \<rparr>))"

text \<open>
  \<open>global_i\<close> is the flat position the thread is at; the unsigned variable holds it
  modulo \<open>2 ^ 32\<close>.
\<close>

definition loop_inds_calc :: "plan \<Rightarrow> int \<Rightarrow> kstate" where
  "loop_inds_calc P global_i =
     snd (fold (calc_dim P) [0..<pl_ndim P] (uint32 global_i, kernel_init P))"

text \<open>
  Lines 389-417, the update run at the end of every loop iteration:
  \<^verbatim>\<open>
  /* for each name of arrayindnames: */
  name_i += BLOCKELEMSTRIDE_name_0 + ... + BLOCKELEMSTRIDE_name_{ndim-1};
  /* for each dimnum: */
  INDEX_d += BLOCK_STEP_d;
  /* and, when dimnum < ndim - 1: */
  if (INDEX_d >= SHAPE_d) {
    INDEX_d -= SHAPE_d;
    INDEX_{d+1} ++;
    /* for each name of arrayindnames: */
    name_i += ELEMSTRIDE_name_{d+1} - DIMELEMSTRIDE_name_d;
  }
  \<close>
  The right-hand sides of the two offset statements are expressions of literals: C
  evaluates them in the type of the literals and converts the result to \<^verbatim>\<open>long\<close> for the
  \<^verbatim>\<open>+=\<close>.
\<close>

definition blockelemstride_sum :: "plan \<Rightarrow> string \<Rightarrow> int" where
  "blockelemstride_sum P name =
     snd (c_sum (map (\<lambda>dimnum. c_lit (BLOCKELEMSTRIDE P name dimnum)) [0..<pl_ndim P]))"

definition carry_correction :: "plan \<Rightarrow> nat \<Rightarrow> string \<Rightarrow> int" where
  "carry_correction P dimnum name =
     snd (c_sub (c_lit (ELEMSTRIDE P name (dimnum + 1))) (c_lit (DIMELEMSTRIDE P name dimnum)))"

definition inc_dim :: "plan \<Rightarrow> nat \<Rightarrow> kstate \<Rightarrow> kstate" where
  "inc_dim P dimnum st =
     (let st1 = st\<lparr> INDEX := (INDEX st)[dimnum := INDEX st ! dimnum + pl_block_step P ! dimnum] \<rparr>
      in if dimnum + 1 < pl_ndim P
         then (if pl_shape P ! dimnum \<le> INDEX st1 ! dimnum
               then let i1 = (INDEX st1)[dimnum := INDEX st1 ! dimnum - pl_shape P ! dimnum];
                        i2 = i1[dimnum + 1 := i1 ! (dimnum + 1) + 1]
                    in st1\<lparr> INDEX := i2,
                            offs := bump (pl_arrayindnames P) (carry_correction P dimnum)
                                      (offs st1) \<rparr>
               else st1)
         else st1)"

definition loop_inds_inc :: "plan \<Rightarrow> kstate \<Rightarrow> kstate" where
  "loop_inds_inc P st =
     fold (inc_dim P) [0..<pl_ndim P]
       (st\<lparr> offs := bump (pl_arrayindnames P) (blockelemstride_sum P) (offs st) \<rparr>)"



subsection \<open>The constructor (lines 69-96)\<close>

text \<open>
  The values that the \<^verbatim>\<open>assert\<close> of line 81 can meet, and Python's truth of them: a tuple
  and a string are true exactly when they are not empty.
\<close>

datatype pyval = PyBool bool | PyStr string | PyTuple "pyval list"

fun truthy :: "pyval \<Rightarrow> bool" where
  "truthy (PyBool b) = b"
| "truthy (PyStr s) = (s \<noteq> [])"
| "truthy (PyTuple vs) = (vs \<noteq> [])"

definition py_assert :: "pyval \<Rightarrow> error + unit" where
  "py_assert v = (if truthy v then Inr () else Inl AssertionError)"

text \<open>\<^verbatim>\<open>sep.join(xs)\<close>.\<close>

fun py_join :: "string \<Rightarrow> string list \<Rightarrow> string" where
  "py_join sep [] = []"
| "py_join sep [x] = x"
| "py_join sep (x # y # ys) = x @ sep @ py_join sep (y # ys)"

text \<open>
  An argument descriptor is a \<^verbatim>\<open>VectorArg\<close> or a \<^verbatim>\<open>ScalarArg\<close> of \<^verbatim>\<open>pycuda.tools\<close>. The
  constructor asks it three things: whether it is a \<^verbatim>\<open>VectorArg\<close>, its \<^verbatim>\<open>name\<close>, and the
  text that \<^verbatim>\<open>declarator()\<close> returns.
\<close>

record argument =
  ad_is_vector :: bool
  ad_name :: string
  ad_declarator :: string

text \<open>The tuple \<^verbatim>\<open>self._init_args\<close> of lines 93-94.\<close>

record init_args =
  ia_arg_names :: "string list"
  ia_arg_decls :: string
  ia_operation :: string
  ia_name :: string
  ia_preamble :: string
  ia_loop_prep :: string
  ia_after_loop :: string

text \<open>The attributes that \<^verbatim>\<open>__init__\<close> sets; \<open>self_x\<close> is \<^verbatim>\<open>self._x\<close>.\<close>

record esm =
  self_do_range :: bool
  self_do_indices :: bool
  self_order :: string
  self_arg_decls :: string
  self_array_arg_inds :: "nat list"
  self_shape_arg_index :: nat
  self_arg_names :: "string list"
  self_array_arg_names :: "string list"
  self_init_args :: init_args
  self_init_args_repr :: string
  self_debug :: bool

text \<open>The message of the \<^verbatim>\<open>assert\<close> of line 81; \<open>CHR 0x27\<close> is the single quote.\<close>

definition order_message :: string where
  "order_message =
     ''order must be '' @ [CHR 0x27] @ ''F'' @ [CHR 0x27] @ '', '' @ [CHR 0x27] @ ''C''
       @ [CHR 0x27] @ '', or '' @ [CHR 0x27] @ ''K'' @ [CHR 0x27]"

text \<open>
  \<^verbatim>\<open>__init__\<close>. The \<^verbatim>\<open>order\<close> parameter is a string; \<^verbatim>\<open>order in 'CFK'\<close> is then Python's
  substring test. Python's \<^verbatim>\<open>repr\<close> of the tuple of strings is the parameter \<open>repr\<close>. An index
  is a natural number; \<^verbatim>\<open>array_arg_inds[0]\<close> of an empty list and \<^verbatim>\<open>self._arg_names[i]\<close>
  past the end raise \<^verbatim>\<open>IndexError\<close>. (The call of the base class constructor with the
  compile options is not part of this file.)
\<close>

definition init ::
  "(init_args \<Rightarrow> string) \<Rightarrow> argument list \<Rightarrow> string \<Rightarrow> string \<Rightarrow> string \<Rightarrow> string \<Rightarrow> string
     \<Rightarrow> bool \<Rightarrow> nat option \<Rightarrow> nat list option \<Rightarrow> bool \<Rightarrow> string \<Rightarrow> bool \<Rightarrow> error + esm" where
  "init repr arguments operation name preamble loop_prep after_loop
        do_range shape_arg_index array_arg_inds do_indices order debug =
     (case py_assert (PyTuple [PyBool (sublist order ''CFK''), PyStr order_message])
      of Inl e \<Rightarrow> Inl e
       | Inr u \<Rightarrow>
     let arg_decls = py_join '', '' (map ad_declarator arguments);
         array_arg_inds1 =
           (case array_arg_inds of
              None \<Rightarrow> filter (\<lambda>i. ad_is_vector (arguments ! i)) [0..<length arguments]
            | Some inds \<Rightarrow> inds)
     in case (case shape_arg_index of
                None \<Rightarrow> (if array_arg_inds1 = [] then Inl IndexError
                          else Inr (array_arg_inds1 ! 0))
              | Some s \<Rightarrow> Inr s)
        of Inl e \<Rightarrow> Inl e
         | Inr shape_arg_index1 \<Rightarrow>
     let arg_names = map ad_name arguments
     in if list_ex (\<lambda>i. length arg_names \<le> i) array_arg_inds1 then Inl IndexError
        else
     let array_arg_names = map (\<lambda>i. arg_names ! i) array_arg_inds1;
         init_args = \<lparr> ia_arg_names = arg_names, ia_arg_decls = arg_decls,
                       ia_operation = operation, ia_name = name, ia_preamble = preamble,
                       ia_loop_prep = loop_prep, ia_after_loop = after_loop \<rparr>
     in Inr \<lparr> self_do_range = do_range, self_do_indices = do_indices, self_order = order,
              self_arg_decls = arg_decls, self_array_arg_inds = array_arg_inds1,
              self_shape_arg_index = shape_arg_index1, self_arg_names = arg_names,
              self_array_arg_names = array_arg_names, self_init_args = init_args,
              self_init_args_repr = repr init_args, self_debug = debug \<rparr>)"

subsection \<open>The layout classifier (lines 98-141)\<close>

text \<open>
  What the classifier reads of an actual parameter that has a \<^verbatim>\<open>shape\<close> attribute (a
  \<^verbatim>\<open>GPUArray\<close>): \<^verbatim>\<open>shape\<close>, \<^verbatim>\<open>strides\<close>, \<^verbatim>\<open>itemsize\<close> and the two flags
  \<^verbatim>\<open>flags.f_contiguous\<close> and \<^verbatim>\<open>flags.c_contiguous\<close>, taken as the array reports them when
  lines 123-125 ask. An actual parameter without the attribute (a \<^verbatim>\<open>DeviceAllocation\<close> such as
  \<^verbatim>\<open>GPUArray.gpudata\<close>, a Python number) is \<open>Opaque\<close>: it has no \<^verbatim>\<open>strides\<close> and no
  \<^verbatim>\<open>itemsize\<close> either.
\<close>

record gpuarray =
  ga_shape :: "int list"
  ga_strides :: "int list"
  ga_itemsize :: int
  ga_f_contiguous :: bool
  ga_c_contiguous :: bool

datatype arg = Opaque | Array gpuarray

text \<open>The tuple that the classifier returns.\<close>

record precalc =
  pc_contigmatch :: bool
  pc_arrayspecificinds :: bool
  pc_shape :: "int list option"
  pc_arrayitemstrides :: "(int \<times> int list) list"

text \<open>
  The local variables of the loop of line 106, together with the argument list, which
  line 120 updates in place.
\<close>

record classify =
  contigmatch :: bool
  arrayspecificinds :: bool
  cur_shape :: "int list option"
  cur_order :: "string option"
  cur_args :: "arg list"

text \<open>
  Line 120, \<^verbatim>\<open>tuple((np.array(curshape) > 1) * arg.strides)\<close>: the strides with a zero
  wherever the size is 1 (or less); numpy raises \<^verbatim>\<open>ValueError\<close> when the two lengths do not
  broadcast.
\<close>

definition normalize_strides :: "int list \<Rightarrow> int list \<Rightarrow> error + int list" where
  "normalize_strides curshape strides0 =
     np_mul (map (\<lambda>s. if 1 < s then 1 else 0) curshape) strides0"

text \<open>The body of the loop of line 106 for the index \<open>i\<close>.\<close>

definition classify_arg :: "nat option \<Rightarrow> nat \<Rightarrow> classify \<Rightarrow> error + classify" where
  "classify_arg shape_arg_index i st =
     (if length (cur_args st) \<le> i then Inl IndexError
      else if \<not> arrayspecificinds st then Inr st
      else case cur_args st ! i of
             Opaque \<Rightarrow> Inr (st\<lparr> arrayspecificinds := False \<rparr>)
           | Array a \<Rightarrow>
               let curshape = ga_shape a
               in case normalize_strides curshape (ga_strides a) of
                    Inl e \<Rightarrow> Inl e
                  | Inr strides1 \<Rightarrow>
               let st1 = st\<lparr> cur_args := (cur_args st)[i := Array (a\<lparr> ga_strides := strides1 \<rparr>)] \<rparr>;
                   st2 =
                     (if contigmatch st1
                      then let curorder = (if ga_f_contiguous a then ''F''
                                           else if ga_c_contiguous a then ''C'' else ''N'');
                               st1a = (if curorder = ''N'' then st1\<lparr> contigmatch := False \<rparr>
                                       else st1)
                           in (if cur_shape st1a = None
                               then st1a\<lparr> cur_shape := Some curshape, cur_order := Some curorder \<rparr>
                               else if cur_order st1a \<noteq> Some curorder
                                    then st1a\<lparr> contigmatch := False \<rparr>
                                    else st1a)
                      else st1)
               in if shape_arg_index = None \<and> cur_shape st2 \<noteq> Some curshape
                  then Inl ShapeMismatch
                  else if shape_arg_index = Some i
                       then Inr (st2\<lparr> cur_shape := Some curshape \<rparr>)
                       else Inr st2)"

fun classify_args :: "nat option \<Rightarrow> nat list \<Rightarrow> classify \<Rightarrow> error + classify" where
  "classify_args shape_arg_index [] st = Inr st"
| "classify_args shape_arg_index (i # inds) st =
     (case classify_arg shape_arg_index i st of
        Inl e \<Rightarrow> Inl e
      | Inr st' \<Rightarrow> classify_args shape_arg_index inds st')"

text \<open>
  Line 139 reads \<^verbatim>\<open>itemsize\<close> and \<^verbatim>\<open>strides\<close> of every array argument, also of one that
  the loop has skipped: for an argument without these attributes that is an
  \<^verbatim>\<open>AttributeError\<close>.
\<close>

fun arrayitemstrides_of :: "arg list \<Rightarrow> nat list \<Rightarrow> error + (int \<times> int list) list" where
  "arrayitemstrides_of args [] = Inr []"
| "arrayitemstrides_of args (i # inds) =
     (if length args \<le> i then Inl IndexError
      else case args ! i of
             Opaque \<Rightarrow> Inl AttributeError
           | Array a \<Rightarrow>
               (case arrayitemstrides_of args inds of
                  Inl e \<Rightarrow> Inl e
                | Inr rest \<Rightarrow> Inr ((ga_itemsize a, ga_strides a) # rest)))"

text \<open>
  \<^verbatim>\<open>_precalc_array_info(self, args, shape_arg_index)\<close>. The result is the returned tuple and
  the argument list as the call leaves it.
\<close>

definition precalc_array_info :: "esm \<Rightarrow> arg list \<Rightarrow> nat option \<Rightarrow> error + precalc \<times> arg list" where
  "precalc_array_info self args shape_arg_index =
     (case classify_args shape_arg_index (self_array_arg_inds self)
             \<lparr> contigmatch = True, arrayspecificinds = True, cur_shape = None,
               cur_order = None, cur_args = args \<rparr> of
        Inl e \<Rightarrow> Inl e
      | Inr st \<Rightarrow>
          (case arrayitemstrides_of (cur_args st) (self_array_arg_inds self) of
             Inl e \<Rightarrow> Inl e
           | Inr arrayitemstrides \<Rightarrow>
               Inr (\<lparr> pc_contigmatch = contigmatch st,
                      pc_arrayspecificinds = arrayspecificinds st,
                      pc_shape = cur_shape st,
                      pc_arrayitemstrides = arrayitemstrides \<rparr>, cur_args st)))"

subsection \<open>The cache key (lines 144-185)\<close>

text \<open>
  The second component of the result of \<^verbatim>\<open>create_key\<close>, a tuple of nine entries, the last
  five of which are \<^verbatim>\<open>None\<close> on the fast path. The key is either the string
  \<^verbatim>\<open>self._init_args_repr\<close> or that tuple.
\<close>

record keytuple =
  sg_init_args_repr :: string
  sg_shape :: "int list option"
  sg_contigmatch :: bool
  sg_arrayspecificinds :: bool
  sg_arrayitemstrides :: "(int \<times> int list) list option"
  sg_arg_decls :: "string option"
  sg_do_reverse :: "bool option"
  sg_grid :: "int list option"
  sg_block :: "int list option"

datatype key = KeyRepr string | KeyTuple keytuple

text \<open>\<^verbatim>\<open>t[i]\<close> of a tuple.\<close>

definition py_index :: "'a list \<Rightarrow> nat \<Rightarrow> error + 'a" where
  "py_index t i = (if i < length t then Inr (t ! i) else Inl IndexError)"

text \<open>
  \<^verbatim>\<open>np.argmin(np.abs(strides))\<close>: the first index of the smallest absolute value;
  \<^verbatim>\<open>ValueError\<close> for an empty sequence.
\<close>

definition argmin_abs :: "int list \<Rightarrow> error + nat" where
  "argmin_abs xs =
     (if xs = [] then Inl ValueError
      else Inr (fst (fold (\<lambda>(i, x) (best, m). if \<bar>x\<bar> < m then (i, \<bar>x\<bar>) else (best, m))
                       (enumerate 0 xs) (0, \<bar>hd xs\<bar>))))"

text \<open>
  Line 157. Python's \<^verbatim>\<open>or\<close> evaluates its operands from the left and stops at the first
  true one; \<^verbatim>\<open>grid[2]\<close> is not among them.
\<close>

definition geometry_check :: "int list \<Rightarrow> int list \<Rightarrow> error + unit" where
  "geometry_check grid block =
     (case py_index grid 1 of
        Inl e \<Rightarrow> Inl e
      | Inr g1 \<Rightarrow>
          if g1 \<noteq> 1 then Inl InvalidGeometry
          else case py_index block 1 of
                 Inl e \<Rightarrow> Inl e
               | Inr b1 \<Rightarrow>
                   if b1 \<noteq> 1 then Inl InvalidGeometry
                   else case py_index block 2 of
                          Inl e \<Rightarrow> Inl e
                        | Inr b2 \<Rightarrow> if b2 \<noteq> 1 then Inl InvalidGeometry else Inr ())"

text \<open>
  Lines 173-179, the reversal decision. \<^verbatim>\<open>args[self._shape_arg_index].strides\<close> is read
  from the argument list as the classifier has left it.
\<close>

definition reversal :: "esm \<Rightarrow> arg list \<Rightarrow> nat \<Rightarrow> error + bool" where
  "reversal self args ndim =
     (if self_order self = ''C'' then Inr True
      else if self_order self = ''K''
      then case py_index args (self_shape_arg_index self) of
             Inl e \<Rightarrow> Inl e
           | Inr Opaque \<Rightarrow> Inl AttributeError
           | Inr (Array a) \<Rightarrow>
               (case argmin_abs (ga_strides a) of
                  Inl e \<Rightarrow> Inl e
                | Inr m \<Rightarrow> Inr (ndim div 2 < m))
      else Inr False)"

text \<open>
  \<^verbatim>\<open>create_key(self, grid, block, *args)\<close>. Line 148 calls the classifier of the compiled
  driver module, \<^verbatim>\<open>_drv._precalc_array_info(args, array_arg_inds, shape_arg_index)\<close>, which is
  not part of this file: it is the parameter \<open>drv\<close>, a function from its three arguments to
  the tuple it returns and the argument list as it leaves it, or to an exception.
  \<^verbatim>\<open>len(shape)\<close> of \<^verbatim>\<open>None\<close> is a \<^verbatim>\<open>TypeError\<close>.
\<close>

definition create_key ::
  "(arg list \<Rightarrow> nat list \<Rightarrow> nat \<Rightarrow> error + precalc \<times> arg list) \<Rightarrow> esm \<Rightarrow> int list \<Rightarrow> int list
     \<Rightarrow> arg list \<Rightarrow> error + key \<times> keytuple" where
  "create_key drv self grid block args =
     (case drv args (self_array_arg_inds self) (self_shape_arg_index self) of
        Inl e \<Rightarrow> Inl e
      | Inr (precalc_init, args1) \<Rightarrow>
          if (pc_contigmatch precalc_init \<or> \<not> pc_arrayspecificinds precalc_init)
             \<and> \<not> self_do_indices self
          then Inr (KeyRepr (self_init_args_repr self),
                    \<lparr> sg_init_args_repr = self_init_args_repr self,
                      sg_shape = pc_shape precalc_init,
                      sg_contigmatch = pc_contigmatch precalc_init,
                      sg_arrayspecificinds = pc_arrayspecificinds precalc_init,
                      sg_arrayitemstrides = None, sg_arg_decls = None, sg_do_reverse = None,
                      sg_grid = None, sg_block = None \<rparr>)
          else case geometry_check grid block of
                 Inl e \<Rightarrow> Inl e
               | Inr u \<Rightarrow>
                   (case pc_shape precalc_init of
                      None \<Rightarrow> Inl TypeError
                    | Some shape1 \<Rightarrow>
                        (case reversal self args1 (length shape1) of
                           Inl e \<Rightarrow> Inl e
                         | Inr do_reverse \<Rightarrow>
                             let k = \<lparr> sg_init_args_repr = self_init_args_repr self,
                                       sg_shape = pc_shape precalc_init,
                                       sg_contigmatch = pc_contigmatch precalc_init,
                                       sg_arrayspecificinds = pc_arrayspecificinds precalc_init,
                                       sg_arrayitemstrides =
                                         Some (pc_arrayitemstrides precalc_init),
                                       sg_arg_decls = Some (self_arg_decls self),
                                       sg_do_reverse = Some do_reverse,
                                       sg_grid = Some grid, sg_block = Some block \<rparr>
                             in Inr (KeyTuple k, k))))"

text \<open>
  The classifier of lines 98-141 in the place of the driver's, which the comment of line
  146 shows it to have had.
\<close>

definition py_classifier ::
  "esm \<Rightarrow> arg list \<Rightarrow> nat list \<Rightarrow> nat \<Rightarrow> error + precalc \<times> arg list" where
  "py_classifier self args array_arg_inds shape_arg_index =
     precalc_array_info (self\<lparr> self_array_arg_inds := array_arg_inds \<rparr>) args
       (Some shape_arg_index)"

subsection \<open>Closed forms used in the proofs\<close>

text \<open>
  Digit \<open>d\<close> of the flat position \<open>p\<close> in the mixed radix given by the shape: what the
  direct modulo/divide decomposition of \<open>p\<close> leaves in \<^verbatim>\<open>INDEX_d\<close>.
\<close>

definition digit :: "int list \<Rightarrow> int \<Rightarrow> nat \<Rightarrow> int" where
  "digit shape p d = (p div prod_list (take d shape)) mod (shape ! d)"

text \<open>
  The carry into dimension \<open>n\<close> when \<open>T\<close> is added to \<open>p\<close>; it is 0 or 1 for a shape of
  positive sizes.
\<close>

definition carry :: "int list \<Rightarrow> int \<Rightarrow> int \<Rightarrow> nat \<Rightarrow> int" where
  "carry shape p T n =
     (p + T) div prod_list (take n shape) - p div prod_list (take n shape)
       - T div prod_list (take n shape)"

text \<open>
  The indices in the middle of one update, when the dimensions below \<open>n\<close> are done: those
  hold the digits of \<open>p + T\<close>, dimension \<open>n\<close> has received the carry from below, and the
  dimensions above still hold the digits of \<open>p\<close>.
\<close>

definition idxf :: "int list \<Rightarrow> int \<Rightarrow> int \<Rightarrow> nat \<Rightarrow> nat \<Rightarrow> int" where
  "idxf shape p T n d =
     (if d < n then digit shape (p + T) d
      else if d = n then digit shape p d + carry shape p T n
      else digit shape p d)"

text \<open>
  The state that direct decomposition of the flat position \<open>p\<close> gives: the digits of \<open>p\<close>,
  and for every name the sum of digit times element stride, once per occurrence of the
  name in \<^verbatim>\<open>arrayindnames\<close> (the emitted statement is repeated for a repeated name).
\<close>

definition direct_state :: "plan \<Rightarrow> int \<Rightarrow> kstate" where
  "direct_state P p =
     \<lparr> INDEX = map (digit (pl_shape P) p) [0..<pl_ndim P],
       offs = (\<lambda>name. int (count_list (pl_arrayindnames P) name)
                 * (\<Sum>d<pl_ndim P. digit (pl_shape P) p d * ELEMSTRIDE P name d)) \<rparr>"

text \<open>The state in the middle of one update, before dimension \<open>n\<close> is handled.\<close>

definition stage :: "plan \<Rightarrow> int \<Rightarrow> int \<Rightarrow> nat \<Rightarrow> kstate" where
  "stage P p T n =
     \<lparr> INDEX = map (idxf (pl_shape P) p T n) [0..<pl_ndim P],
       offs = (\<lambda>name. int (count_list (pl_arrayindnames P) name)
                 * ((\<Sum>d<pl_ndim P. idxf (pl_shape P) p T n d * ELEMSTRIDE P name d)
                    + (\<Sum>d\<in>{n..<pl_ndim P}. pl_block_step P ! d * ELEMSTRIDE P name d))) \<rparr>"

text \<open>
  What the proofs about the emitted statements need from a plan made for \<open>T\<close> threads;
  every plan that the planner returns for a shape of positive sizes has it (lemma
  \<open>traversal_plan_facts\<close>).
\<close>

definition plan_facts :: "plan \<Rightarrow> int \<Rightarrow> bool" where
  "plan_facts P T \<longleftrightarrow>
     pl_ndim P = length (pl_shape P)
     \<and> (\<forall>s\<in>set (pl_shape P). 0 < s)
     \<and> pl_block_step P = map (digit (pl_shape P) T) [0..<pl_ndim P]
     \<and> (\<forall>name d. d < pl_ndim P \<longrightarrow>
           DIMELEMSTRIDE P name d = ELEMSTRIDE P name d * pl_shape P ! d
         \<and> BLOCKELEMSTRIDE P name d = ELEMSTRIDE P name d * pl_block_step P ! d)"

text \<open>
  The plan's literal expressions come out exact: for every name of \<^verbatim>\<open>arrayindnames\<close> the
  sum of the \<^verbatim>\<open>BLOCKELEMSTRIDE\<close> literals and every difference
  \<^verbatim>\<open>ELEMSTRIDE_name_{d+1} - DIMELEMSTRIDE_name_d\<close>, evaluated as C evaluates them, is the
  sum or difference of the numbers. It fails when an \<^verbatim>\<open>int\<close> operation wraps.
\<close>

definition int_exprs_exact :: "plan \<Rightarrow> bool" where
  "int_exprs_exact P \<longleftrightarrow>
     list_all (\<lambda>name.
         blockelemstride_sum P name = sum_list (map (BLOCKELEMSTRIDE P name) [0..<pl_ndim P])
         \<and> list_all (\<lambda>d. carry_correction P d name
                              = ELEMSTRIDE P name (d + 1) - DIMELEMSTRIDE P name d)
               [0..<pl_ndim P - 1])
       (pl_arrayindnames P)"

text \<open>The element strides that line 297 computes for one entry of \<^verbatim>\<open>argnamestrides\<close>.\<close>

definition elemstrides_of :: "nat \<Rightarrow> bool \<Rightarrow> string \<times> int \<times> int list \<Rightarrow> int list" where
  "elemstrides_of ndim do_reverse arg =
     (case arg of (arg_name, arg_itemsize, arg_strides) \<Rightarrow>
        map (\<lambda>s. np_floordiv s arg_itemsize) (padded_strides ndim do_reverse arg_strides))"

text \<open>Lines 298-299 for one entry of \<^verbatim>\<open>arrayarginfos\<close>, read entry by entry.\<close>

definition info_ok :: "nat \<Rightarrow> int list \<Rightarrow> int list \<Rightarrow> arrayarginfo \<Rightarrow> bool" where
  "info_ok ndim shapearr block_step a \<longleftrightarrow>
     (\<forall>d<ndim. ai_dimelemstrides a ! d = ai_elemstrides a ! d * shapearr ! d
              \<and> ai_blockelemstrides a ! d = ai_elemstrides a ! d * block_step ! d)"

text \<open>The pair that line 308 appends to \<^verbatim>\<open>arrayrefnames\<close> for an entry with a reference.\<close>

definition alias_entry :: "arrayarginfo list \<Rightarrow> arrayarginfo \<Rightarrow> (string \<times> string) list" where
  "alias_entry infos a =
     (case ai_inforef a of None \<Rightarrow> [] | Some i \<Rightarrow> [(ai_name a, ai_name (infos ! i))])"



text \<open>
  The plan for a 2 by 2 array traversed by 3 threads, with one argument \<^verbatim>\<open>x\<close> in column-major
  layout, 4 bytes per element.
\<close>

definition plan_2x2 :: plan where
  "plan_2x2 =
     \<lparr> pl_ndim = 2, pl_shape = [2, 2], pl_block_step = [1, 1],
       pl_arrayindnames = [''x''], pl_arrayrefnames = [],
       pl_arrayarginfos =
         [\<lparr> ai_name = ''x'', ai_elemstrides = [1, 2], ai_dimelemstrides = [2, 4],
            ai_blockelemstrides = [1, 2], ai_inforef = None \<rparr>] \<rparr>"


subsection \<open>Example modules and arrays, and predicates used in the proofs\<close>

text \<open>A function in the place of Python's \<^verbatim>\<open>repr\<close> for the examples: the entries of the tuple
  joined by a bar.\<close>

definition repr_example :: "init_args \<Rightarrow> string" where
  "repr_example ia =
     py_join ''|'' (ia_arg_names ia @ [ia_arg_decls ia, ia_operation ia, ia_name ia,
                                      ia_preamble ia, ia_loop_prep ia, ia_after_loop ia])"

text \<open>Two \<^verbatim>\<open>VectorArg\<close> descriptors, \<^verbatim>\<open>x\<close> and \<^verbatim>\<open>y\<close>.\<close>

definition arguments_xy :: "argument list" where
  "arguments_xy =
     [\<lparr> ad_is_vector = True, ad_name = ''x'', ad_declarator = ''float *x'' \<rparr>,
      \<lparr> ad_is_vector = True, ad_name = ''y'', ad_declarator = ''float *y'' \<rparr>]"

text \<open>The \<^verbatim>\<open>_init_args\<close> of a copy kernel over them.\<close>

definition init_args_xy :: init_args where
  "init_args_xy =
     \<lparr> ia_arg_names = [''x'', ''y''], ia_arg_decls = ''float *x, float *y'',
       ia_operation = ''y[y_i] = x[x_i]'', ia_name = ''kernel'', ia_preamble = [],
       ia_loop_prep = [], ia_after_loop = [] \<rparr>"

text \<open>The module that the constructor builds for the copy kernel with its default parameters.\<close>

definition esm_xy :: esm where
  "esm_xy =
     \<lparr> self_do_range = False, self_do_indices = False, self_order = ''K'',
       self_arg_decls = ''float *x, float *y'', self_array_arg_inds = [0, 1],
       self_shape_arg_index = 0, self_arg_names = [''x'', ''y''],
       self_array_arg_names = [''x'', ''y''], self_init_args = init_args_xy,
       self_init_args_repr = ''x|y|float *x, float *y|y[y_i] = x[x_i]|kernel|||'',
       self_debug = False \<rparr>"

text \<open>A 2 by 3 array of 4-byte elements in column-major layout.\<close>

definition arr_f23 :: gpuarray where
  "arr_f23 = \<lparr> ga_shape = [2, 3], ga_strides = [4, 8], ga_itemsize = 4,
               ga_f_contiguous = True, ga_c_contiguous = False \<rparr>"

text \<open>A 2 by 3 array of 4-byte elements in row-major layout.\<close>

definition arr_c23 :: gpuarray where
  "arr_c23 = \<lparr> ga_shape = [2, 3], ga_strides = [12, 4], ga_itemsize = 4,
               ga_f_contiguous = False, ga_c_contiguous = True \<rparr>"

text \<open>A 4 by 4 array of 4-byte elements in column-major layout.\<close>

definition arr_f44 :: gpuarray where
  "arr_f44 = \<lparr> ga_shape = [4, 4], ga_strides = [4, 16], ga_itemsize = 4,
               ga_f_contiguous = True, ga_c_contiguous = False \<rparr>"


text \<open>The key of the copy kernel for one column-major and one row-major 2 by 3 array.\<close>

definition keytuple_xy :: "int list \<Rightarrow> int list \<Rightarrow> keytuple" where
  "keytuple_xy grid block =
     \<lparr> sg_init_args_repr = ''x|y|float *x, float *y|y[y_i] = x[x_i]|kernel|||'',
       sg_shape = Some [2, 3], sg_contigmatch = False, sg_arrayspecificinds = True,
       sg_arrayitemstrides = Some [(4, [4, 8]), (4, [12, 4])],
       sg_arg_decls = Some ''float *x, float *y'', sg_do_reverse = Some False,
       sg_grid = Some grid, sg_block = Some block \<rparr>"

text \<open>The classifier's result for two column-major arrays of one shape and stride tuple.\<close>

definition precalc_f :: "int list \<Rightarrow> int list \<Rightarrow> precalc" where
  "precalc_f shape1 strides1 =
     \<lparr> pc_contigmatch = True, pc_arrayspecificinds = True, pc_shape = Some shape1,
       pc_arrayitemstrides = [(4, strides1), (4, strides1)] \<rparr>"



subsection \<open>Block step: the loop against its closed form\<close>

lemma prod_list_take_pos:
  "\<forall>s\<in>set shape. 0 < s \<Longrightarrow> 0 < prod_list (take n (shape :: int list))"
  by (induction shape arbitrary: n) (auto simp: take_Cons split: nat.splits)

lemma prod_list_take_Suc:
  "n < length shape \<Longrightarrow>
     prod_list (take (Suc n) shape) = prod_list (take n shape) * (shape ! n :: int)"
  by (simp add: take_Suc_conv_app_nth)

lemma block_step_fold:
  assumes pos: "\<forall>s\<in>set shape. 0 < s"
  shows "n \<le> length shape \<Longrightarrow>
     fold block_step_dim [0..<n] (T, shape) =
       (T div prod_list (take n shape), map (block_step_spec T shape) [0..<n] @ drop n shape)"
proof (induction n)
  case 0
  then show ?case by simp
next
  case (Suc n)
  then have n: "n < length shape" by simp
  have sn: "0 < shape ! n" using pos n by simp
  have nth: "(map (block_step_spec T shape) [0..<n] @ drop n shape) ! n = shape ! n"
    using n by (simp add: nth_append)
  have upd: "(map (block_step_spec T shape) [0..<n] @ drop n shape)[n := v] =
      map (block_step_spec T shape) [0..<n] @ v # drop (Suc n) shape" for v
    using n by (simp add: list_update_append Cons_nth_drop_Suc[symmetric])
  have dv: "T div prod_list (take n shape) div shape ! n = T div prod_list (take (Suc n) shape)"
    using sn n by (simp add: prod_list_take_Suc zdiv_zmult2_eq)
  have "fold block_step_dim [0..<Suc n] (T, shape) =
      block_step_dim n
        (T div prod_list (take n shape), map (block_step_spec T shape) [0..<n] @ drop n shape)"
    using Suc by simp
  also have "\<dots> = (T div prod_list (take (Suc n) shape),
      map (block_step_spec T shape) [0..<n] @ block_step_spec T shape n # drop (Suc n) shape)"
    using sn dv by (simp add: block_step_dim_def np_mod_def np_floordiv_def Let_def nth upd)
      (simp add: block_step_spec_def)
  finally show ?case by simp
qed

lemma block_step_of_eq:
  assumes "\<forall>s\<in>set shape. 0 < s"
  shows "block_step_of T shape = map (block_step_spec T shape) [0..<length shape]"
  using block_step_fold[OF assms, of "length shape" T] by (simp add: block_step_of_def)

subsection \<open>Carries in mixed-radix addition\<close>

lemma small_div:
  fixes v s :: int
  assumes "0 \<le> v" "v < 2 * s"
  shows "v div s = (if s \<le> v then 1 else 0)" "v mod s = v - s * (if s \<le> v then 1 else 0)"
proof -
  have d: "v div s = (if s \<le> v then 1 else 0)"
  proof (cases "s \<le> v")
    case True
    have "v div s = 1"
      by (rule int_div_pos_eq[where r = "v - s"]) (use True assms in auto)
    then show ?thesis using True by simp
  next
    case False
    have "v div s = 0"
      by (rule int_div_pos_eq[where r = v]) (use False assms in auto)
    then show ?thesis using False by simp
  qed
  show "v div s = (if s \<le> v then 1 else 0)" by (rule d)
  have "v mod s = v - s * (v div s)" by (rule minus_mult_div_eq_mod[symmetric])
  then show "v mod s = v - s * (if s \<le> v then 1 else 0)" by (simp only: d)
qed

lemma carry_bounds:
  fixes P p T :: int
  assumes "0 < P"
  shows "0 \<le> (p + T) div P - p div P - T div P" "(p + T) div P - p div P - T div P \<le> 1"
proof -
  have e: "(p + T) div P - p div P - T div P = (p mod P + T mod P) div P"
    using div_add1_eq[of p T P] by linarith
  have b: "0 \<le> p mod P + T mod P" "p mod P + T mod P < 2 * P"
    using assms pos_mod_bound[of P p] pos_mod_bound[of P T] pos_mod_sign[of P p] pos_mod_sign[of P T]
    by linarith+
  have "(p mod P + T mod P) div P = (if P \<le> p mod P + T mod P then 1 else 0)"
    by (rule small_div(1)[OF b])
  then show "0 \<le> (p + T) div P - p div P - T div P" "(p + T) div P - p div P - T div P \<le> 1"
    unfolding e by (simp_all split: if_splits)
qed



lemma carry_step:
  fixes P s p T :: int
  assumes P: "0 < P" and s: "0 < s"
  defines "c \<equiv> (p + T) div P - p div P - T div P"
  defines "v \<equiv> (p div P) mod s + c + (T div P) mod s"
  shows "(p + T) div (P * s) - p div (P * s) - T div (P * s) = (if s \<le> v then 1 else 0)"
    and "((p + T) div P) mod s = v - s * (if s \<le> v then 1 else 0)"
    and "0 \<le> v" and "v < 2 * s"
proof -
  have c: "0 \<le> c" "c \<le> 1" using carry_bounds[OF P, of p T] by (simp_all add: c_def)
  show v: "0 \<le> v" "v < 2 * s"
    using c s pos_mod_bound[of s "p div P"] pos_mod_bound[of s "T div P"]
      pos_mod_sign[of s "p div P"] pos_mod_sign[of s "T div P"]
    unfolding v_def by linarith+
  define q where "q = p div P div s + T div P div s"
  have a: "p div P = s * (p div P div s) + p div P mod s"
    and b: "T div P = s * (T div P div s) + T div P mod s"
    by simp_all
  have "(p + T) div P = p div P + T div P + c" unfolding c_def by linarith
  also have "\<dots> = s * q + v"
    using a b unfolding v_def q_def by (simp only: distrib_left)
  finally have e: "(p + T) div P = s * q + v" .
  have ed: "(p + T) div P div s = q + v div s"
    unfolding e using s by simp
  have em: "(p + T) div P mod s = v mod s"
    unfolding e by simp
  have sp: "x div (P * s) = x div P div s" for x
    using s by (simp add: zdiv_zmult2_eq)
  have "(p + T) div (P * s) - p div (P * s) - T div (P * s) = v div s"
    unfolding sp ed q_def by linarith
  then show "(p + T) div (P * s) - p div (P * s) - T div (P * s) = (if s \<le> v then 1 else 0)"
    using small_div(1)[OF v] by simp
  show "((p + T) div P) mod s = v - s * (if s \<le> v then 1 else 0)"
    unfolding em by (rule small_div(2)[OF v])
qed

lemma bump_apply:
  "bump names delta f n = f n + int (count_list names n) * delta n"
  unfolding bump_def
  by (induction names arbitrary: f) (simp_all add: distrib_right)

lemma sum_list_upt: "sum_list (map f [0..<n]) = (\<Sum>d<n. f d)" for f :: "nat \<Rightarrow> int"
  by (induction n) simp_all

lemma carry_0: "carry shape p T 0 = 0"
  by (simp add: carry_def)

lemma carry_Suc:
  fixes shape :: "int list" and p T :: int and n :: nat
  assumes pos: "\<forall>s\<in>set shape. 0 < s" and n: "n < length shape"
  defines "v \<equiv> digit shape p n + carry shape p T n + digit shape T n"
  shows "carry shape p T (Suc n) = (if shape ! n \<le> v then 1 else 0)"
    and "digit shape (p + T) n = v - shape ! n * (if shape ! n \<le> v then 1 else 0)"
    and "0 \<le> v" and "v < 2 * shape ! n"
  using carry_step[OF prod_list_take_pos[OF pos, of n], of "shape ! n" p T] pos n
  unfolding v_def carry_def digit_def prod_list_take_Suc[OF n]
  by simp_all

lemma carry_last:
  assumes pos: "\<forall>s\<in>set shape. 0 < s" and "0 \<le> p" "0 \<le> T" "p + T < prod_list shape"
  shows "carry shape p T (length shape) = 0"
  using assms by (simp add: carry_def div_pos_pos_trivial)

lemma idxf_Suc:
  assumes pos: "\<forall>s\<in>set shape. 0 < s" and n: "n < length shape"
  shows "idxf shape p T (Suc n) d =
     idxf shape p T n d
       + (if d = n then digit shape T n - shape ! n * carry shape p T (Suc n) else 0)
       + (if d = Suc n then carry shape p T (Suc n) else 0)"
  using carry_Suc(1,2)[OF pos n, of p T]
  by (simp add: idxf_def)

lemma sum_idxf_Suc:
  assumes pos: "\<forall>s\<in>set shape. 0 < s" and n: "n < N" and N: "N = length shape"
  shows "(\<Sum>d<N. idxf shape p T (Suc n) d * E d) =
     (\<Sum>d<N. idxf shape p T n d * E d)
       + (digit shape T n - shape ! n * carry shape p T (Suc n)) * E n
       + (if Suc n < N then carry shape p T (Suc n) * E (Suc n) else 0)"
proof -
  have nl: "n < length shape" using n N by simp
  have "(\<Sum>d<N. idxf shape p T (Suc n) d * E d) =
      (\<Sum>d<N. idxf shape p T n d * E d
         + (if d = n then (digit shape T n - shape ! n * carry shape p T (Suc n)) * E d else 0)
         + (if d = Suc n then carry shape p T (Suc n) * E d else 0))"
    by (rule sum.cong) (simp_all add: idxf_Suc[OF pos nl] distrib_right)
  also have "\<dots> = (\<Sum>d<N. idxf shape p T n d * E d)
       + (\<Sum>d<N. if d = n then (digit shape T n - shape ! n * carry shape p T (Suc n)) * E d else 0)
       + (\<Sum>d<N. if d = Suc n then carry shape p T (Suc n) * E d else 0)"
    by (simp add: sum.distrib)
  also have "\<dots> = (\<Sum>d<N. idxf shape p T n d * E d)
       + (digit shape T n - shape ! n * carry shape p T (Suc n)) * E n
       + (if Suc n < N then carry shape p T (Suc n) * E (Suc n) else 0)"
    using n by simp
  finally show ?thesis .
qed

subsection \<open>The index statements against direct decomposition\<close>




lemma bump_exact:
  assumes "\<And>n. n \<in> set names \<Longrightarrow> delta n = delta' n"
  shows "bump names delta f = bump names delta' f"
proof
  fix n
  show "bump names delta f n = bump names delta' f n"
    using assms[of n] by (cases "n \<in> set names") (simp_all add: bump_apply)
qed

lemma exact_blockelemstride_sum:
  assumes "int_exprs_exact P" and "name \<in> set (pl_arrayindnames P)"
  shows "blockelemstride_sum P name = sum_list (map (BLOCKELEMSTRIDE P name) [0..<pl_ndim P])"
  using assms by (simp add: int_exprs_exact_def list_all_iff)

lemma exact_carry_correction:
  assumes "int_exprs_exact P" and "name \<in> set (pl_arrayindnames P)" and "Suc n < pl_ndim P"
  shows "carry_correction P n name = ELEMSTRIDE P name (Suc n) - DIMELEMSTRIDE P name n"
  using assms by (simp add: int_exprs_exact_def list_all_iff)

lemma stage_0:
  assumes pf: "plan_facts P T" and ex: "int_exprs_exact P"
  shows "(direct_state P p)\<lparr> offs := bump (pl_arrayindnames P) (blockelemstride_sum P)
            (offs (direct_state P p)) \<rparr> = stage P p T 0"
proof -
  have bx: "bump (pl_arrayindnames P) (blockelemstride_sum P) f =
      bump (pl_arrayindnames P)
        (\<lambda>name. sum_list (map (BLOCKELEMSTRIDE P name) [0..<pl_ndim P])) f" for f
    by (rule bump_exact) (rule exact_blockelemstride_sum[OF ex])
  have i0: "idxf (pl_shape P) p T 0 d = digit (pl_shape P) p d" for d
    by (simp add: idxf_def carry_0)
  have bes: "(\<Sum>d<pl_ndim P. BLOCKELEMSTRIDE P name d) =
      (\<Sum>d<pl_ndim P. pl_block_step P ! d * ELEMSTRIDE P name d)" for name
    by (rule sum.cong) (use pf in \<open>simp_all add: plan_facts_def mult.commute\<close>)
  show ?thesis
    unfolding bx
    by (simp add: direct_state_def stage_def i0 bump_apply sum_list_upt bes fun_eq_iff
        distrib_left atLeast0LessThan)
qed

lemma inc_dim_stage:
  assumes pf: "plan_facts P T" and ex: "int_exprs_exact P" and n: "n < pl_ndim P"
    and last: "Suc n = pl_ndim P \<Longrightarrow> carry (pl_shape P) p T (Suc n) = 0"
  shows "inc_dim P n (stage P p T n) = stage P p T (Suc n)"
proof -
  let ?sh = "pl_shape P" and ?N = "pl_ndim P"
  from pf have N: "?N = length ?sh" and pos: "\<forall>s\<in>set ?sh. 0 < s"
    and bs: "pl_block_step P = map (digit ?sh T) [0..<?N]"
    and des: "\<And>name d. d < ?N \<Longrightarrow> DIMELEMSTRIDE P name d = ELEMSTRIDE P name d * ?sh ! d"
    by (simp_all add: plan_facts_def)
  have nl: "n < length ?sh" using n N by simp
  define v where "v = digit ?sh p n + carry ?sh p T n + digit ?sh T n"
  define c' where "c' = carry ?sh p T (Suc n)"
  have c': "c' = (if ?sh ! n \<le> v then 1 else 0)"
    and dg: "digit ?sh (p + T) n = v - ?sh ! n * c'"
    using carry_Suc(1,2)[OF pos nl, of p T] by (simp_all add: v_def c'_def)
  have bsn: "pl_block_step P ! n = digit ?sh T n" using n by (simp add: bs)
  have idx_n: "INDEX (stage P p T n) ! n = digit ?sh p n + carry ?sh p T n"
    using n by (simp add: stage_def idxf_def)
  \<comment> \<open>the index list after the step\<close>
  have lists: "map (idxf ?sh p T (Suc n)) [0..<?N] =
      (if Suc n < ?N \<and> ?sh ! n \<le> v
       then ((map (idxf ?sh p T n) [0..<?N])[n := v - ?sh ! n])
              [Suc n := idxf ?sh p T n (Suc n) + 1]
       else (map (idxf ?sh p T n) [0..<?N])[n := v])"
  proof (rule nth_equalityI)
    show "length (map (idxf ?sh p T (Suc n)) [0..<?N]) = length
      (if Suc n < ?N \<and> ?sh ! n \<le> v
       then ((map (idxf ?sh p T n) [0..<?N])[n := v - ?sh ! n])
              [Suc n := idxf ?sh p T n (Suc n) + 1]
       else (map (idxf ?sh p T n) [0..<?N])[n := v])" by simp
  next
    fix i assume "i < length (map (idxf ?sh p T (Suc n)) [0..<?N])"
    then have i: "i < ?N" by simp
    have c0: "Suc n = ?N \<Longrightarrow> c' = 0" using last by (simp add: c'_def)
    show "map (idxf ?sh p T (Suc n)) [0..<?N] ! i =
      (if Suc n < ?N \<and> ?sh ! n \<le> v
       then ((map (idxf ?sh p T n) [0..<?N])[n := v - ?sh ! n])
              [Suc n := idxf ?sh p T n (Suc n) + 1]
       else (map (idxf ?sh p T n) [0..<?N])[n := v]) ! i"
    proof (cases "Suc n < ?N")
      case True
      then show ?thesis
        using i n c' dg
        by (auto simp: nth_list_update idxf_def v_def c'_def split: if_splits)
    next
      case False
      then have e: "Suc n = ?N" using n by simp
      have "c' = 0" by (rule c0[OF e])
      then have "digit ?sh (p + T) n = v" using dg by simp
      moreover have "i = n \<or> i < n" using i e by auto
      ultimately show ?thesis
        using False i n
        by (auto simp: nth_list_update idxf_def)
    qed
  qed
  \<comment> \<open>the flat offsets after the step\<close>
  have sums: "(\<Sum>d<?N. idxf ?sh p T (Suc n) d * ELEMSTRIDE P name d)
       + (\<Sum>d\<in>{Suc n..<?N}. pl_block_step P ! d * ELEMSTRIDE P name d) =
      (\<Sum>d<?N. idxf ?sh p T n d * ELEMSTRIDE P name d)
       + (\<Sum>d\<in>{n..<?N}. pl_block_step P ! d * ELEMSTRIDE P name d)
       + (if Suc n < ?N then c' * ELEMSTRIDE P name (Suc n) else 0)
       - ?sh ! n * c' * ELEMSTRIDE P name n" for name
    using sum_idxf_Suc[OF pos n N, of p T "ELEMSTRIDE P name"]
      sum.atLeast_Suc_lessThan[OF n, of "\<lambda>d. pl_block_step P ! d * ELEMSTRIDE P name d"]
    by (simp add: c'_def bsn algebra_simps)
  have c0: "Suc n = ?N \<Longrightarrow> c' = 0" using last by (simp add: c'_def)
  have tgt: "offs (stage P p T (Suc n)) name =
      int (count_list (pl_arrayindnames P) name)
        * ((\<Sum>d<?N. idxf ?sh p T n d * ELEMSTRIDE P name d)
           + (\<Sum>d\<in>{n..<?N}. pl_block_step P ! d * ELEMSTRIDE P name d)
           + (if Suc n < ?N then c' * ELEMSTRIDE P name (Suc n) else 0)
           - ?sh ! n * c' * ELEMSTRIDE P name n)" for name
    unfolding sums[symmetric] by (simp add: stage_def)
  have src: "offs (stage P p T n) name =
      int (count_list (pl_arrayindnames P) name)
        * ((\<Sum>d<?N. idxf ?sh p T n d * ELEMSTRIDE P name d)
           + (\<Sum>d\<in>{n..<?N}. pl_block_step P ! d * ELEMSTRIDE P name d))" for name
    by (simp add: stage_def)
  have idx_eq: "INDEX (stage P p T n) = map (idxf ?sh p T n) [0..<?N]"
    by (simp add: stage_def)
  show ?thesis
  proof (cases "Suc n < ?N \<and> ?sh ! n \<le> v")
    case True
    then have c1: "c' = 1" using c' by simp
    have bx: "bump (pl_arrayindnames P) (carry_correction P n) f =
        bump (pl_arrayindnames P)
          (\<lambda>name. ELEMSTRIDE P name (Suc n) - DIMELEMSTRIDE P name n) f" for f
      by (rule bump_exact) (use True in \<open>simp add: exact_carry_correction[OF ex]\<close>)
    have st: "inc_dim P n (stage P p T n) =
        \<lparr> INDEX = ((map (idxf ?sh p T n) [0..<?N])[n := v - ?sh ! n])
                      [Suc n := idxf ?sh p T n (Suc n) + 1],
          offs = bump (pl_arrayindnames P)
                   (\<lambda>name. ELEMSTRIDE P name (Suc n) - DIMELEMSTRIDE P name n)
                   (offs (stage P p T n)) \<rparr>"
      using True n idx_n bsn
      by (simp add: inc_dim_def Let_def v_def idx_eq bx)
    have "INDEX (inc_dim P n (stage P p T n)) = INDEX (stage P p T (Suc n))"
      unfolding st by (simp add: lists[unfolded if_P[OF True]] stage_def)
    moreover have "offs (inc_dim P n (stage P p T n)) name = offs (stage P p T (Suc n)) name"
      for name
      unfolding st tgt using True
      by (simp add: bump_apply src des[OF n] c1 algebra_simps)
    ultimately show ?thesis by (simp add: fun_eq_iff)
  next
    case False
    then have c00: "c' = 0" using c' c0 n by (cases "Suc n < ?N") auto
    have st: "inc_dim P n (stage P p T n) =
        \<lparr> INDEX = (map (idxf ?sh p T n) [0..<?N])[n := v],
          offs = offs (stage P p T n) \<rparr>"
      using False n idx_n bsn
      by (auto simp: inc_dim_def Let_def v_def idx_eq)
    have "INDEX (inc_dim P n (stage P p T n)) = INDEX (stage P p T (Suc n))"
      unfolding st by (simp add: lists[unfolded if_not_P[OF False]] stage_def)
    moreover have "offs (inc_dim P n (stage P p T n)) name = offs (stage P p T (Suc n)) name"
      for name
      unfolding st tgt by (simp add: src c00)
    ultimately show ?thesis by (simp add: fun_eq_iff)
  qed
qed





subsection \<open>What the planner guarantees\<close>

lemma digit_block_step_spec: "block_step_spec T shape = digit shape T"
  by (simp add: fun_eq_iff block_step_spec_def digit_def)

lemma length_fold_block_step_dim:
  "length (snd (fold block_step_dim ds st)) = length (snd st)"
  by (induction ds arbitrary: st) (simp_all add: block_step_dim_def Let_def split: prod.splits)

lemma length_block_step_of: "length (block_step_of T shape) = length shape"
  by (simp add: block_step_of_def length_fold_block_step_dim)

lemma np_mul_nth:
  assumes "np_mul a b = Inr r" "d < length b" "length b \<le> length a"
  shows "r ! d = a ! d * b ! d"
proof (cases "length a = length b")
  case True
  then show ?thesis using assms by (auto simp: np_mul_def)
next
  case False
  then have "length b = 1" and r: "r = map (\<lambda>x. x * hd b) a"
    using assms by (auto simp: np_mul_def split: if_splits)
  then have "d = 0" "b \<noteq> []" using assms(2) by auto
  moreover have "0 < length a" using assms(3) \<open>length b = 1\<close> by (cases a) simp_all
  ultimately show ?thesis using r by (cases b) simp_all
qed

lemma length_padded_strides: "ndim \<le> length (padded_strides ndim r s)"
  by (simp add: padded_strides_def Let_def)

lemma plan_arg_step:
  assumes "plan_arg ndim do_reverse shapearr block_step arg st = Inr st'"
    and "length shapearr = ndim" "length block_step = ndim"
  shows "\<exists>a. arrayarginfos st' = arrayarginfos st @ [a]
      \<and> info_ok ndim shapearr block_step a
      \<and> ai_name a = fst arg
      \<and> ai_elemstrides a = elemstrides_of ndim do_reverse arg
      \<and> ai_inforef a = find_inforef (ai_elemstrides a) (arrayarginfos st)
      \<and> arrayindnames st' = arrayindnames st @ (if ai_inforef a = None then [ai_name a] else [])
      \<and> arrayrefnames st' = arrayrefnames st @ alias_entry (arrayarginfos st) a"
proof -
  obtain arg_name arg_itemsize arg_strides where arg: "arg = (arg_name, arg_itemsize, arg_strides)"
    by (cases arg) auto
  define es where "es = map (\<lambda>s. np_floordiv s arg_itemsize) (padded_strides ndim do_reverse arg_strides)"
  have les: "ndim \<le> length es" by (simp add: es_def length_padded_strides)
  from assms(1) obtain des bes where
    des: "np_mul es shapearr = Inr des" and bes: "np_mul es block_step = Inr bes"
    and st': "st' = \<lparr> arrayindnames =
                       (case find_inforef es (arrayarginfos st) of
                          None \<Rightarrow> arrayindnames st @ [arg_name]
                        | Some i \<Rightarrow> arrayindnames st),
                     arrayrefnames =
                       (case find_inforef es (arrayarginfos st) of
                          None \<Rightarrow> arrayrefnames st
                        | Some i \<Rightarrow> arrayrefnames st @ [(arg_name, ai_name (arrayarginfos st ! i))]),
                     arrayarginfos = arrayarginfos st @
                       [\<lparr> ai_name = arg_name, ai_elemstrides = es, ai_dimelemstrides = des,
                          ai_blockelemstrides = bes,
                          ai_inforef = find_inforef es (arrayarginfos st) \<rparr>] \<rparr>"
    by (auto simp: plan_arg_def arg es_def Let_def split: sum.splits)
  have ok: "info_ok ndim shapearr block_step
      \<lparr> ai_name = arg_name, ai_elemstrides = es, ai_dimelemstrides = des,
        ai_blockelemstrides = bes, ai_inforef = find_inforef es (arrayarginfos st) \<rparr>"
    using np_mul_nth[OF des] np_mul_nth[OF bes] les assms(2,3)
    by (simp add: info_ok_def)
  show ?thesis
    unfolding st' using ok
    by (auto simp: arg elemstrides_of_def es_def alias_entry_def split: option.splits)
qed

lemma plan_args_infos_ok:
  assumes "length shapearr = ndim" "length block_step = ndim"
  shows "plan_args ndim do_reverse shapearr block_step args st = Inr st' \<Longrightarrow>
     \<forall>a\<in>set (arrayarginfos st). info_ok ndim shapearr block_step a \<Longrightarrow>
     \<forall>a\<in>set (arrayarginfos st'). info_ok ndim shapearr block_step a"
proof (induction args arbitrary: st)
  case Nil
  then show ?case by simp
next
  case (Cons arg args)
  from Cons.prems(1) obtain st1 where
    s1: "plan_arg ndim do_reverse shapearr block_step arg st = Inr st1"
    and s2: "plan_args ndim do_reverse shapearr block_step args st1 = Inr st'"
    by (auto split: sum.splits)
  from plan_arg_step[OF s1 assms] Cons.prems(2)
  have "\<forall>a\<in>set (arrayarginfos st1). info_ok ndim shapearr block_step a" by auto
  then show ?case by (rule Cons.IH[OF s2])
qed

lemma traversal_plan_facts:
  assumes tp: "traversal_plan shape0 do_reverse T ans = Inr P"
    and pos: "\<forall>s\<in>set shape0. 0 < s"
  shows "plan_facts P T"
    and "pl_shape P = (if do_reverse then rev shape0 else shape0)"
    and "pl_ndim P = length shape0"
    and "prod_list (pl_shape P) = prod_list shape0"
proof -
  define shape where "shape = (if do_reverse then rev shape0 else shape0)"
  from tp obtain st where
    pa: "plan_args (length shape0) do_reverse shape (block_step_of T shape) ans
           \<lparr> arrayindnames = [], arrayrefnames = [], arrayarginfos = [] \<rparr> = Inr st"
    and P: "P = \<lparr> pl_ndim = length shape0, pl_shape = shape,
                  pl_block_step = block_step_of T shape,
                  pl_arrayindnames = arrayindnames st,
                  pl_arrayrefnames = arrayrefnames st,
                  pl_arrayarginfos = arrayarginfos st \<rparr>"
    by (auto simp: traversal_plan_def Let_def shape_def split: sum.splits)
  have ls: "length shape = length shape0" by (simp add: shape_def)
  have pos': "\<forall>s\<in>set shape. 0 < s" using pos by (simp add: shape_def)
  have ok: "\<forall>a\<in>set (arrayarginfos st). info_ok (length shape0) shape (block_step_of T shape) a"
    by (rule plan_args_infos_ok[OF ls _ pa]) (simp_all add: length_block_step_of ls)
  have look: "info_of P name = Some a \<Longrightarrow> a \<in> set (arrayarginfos st)" for name a
    by (auto simp: info_of_def P find_Some_iff)
  have rel: "d < length shape0 \<Longrightarrow>
      DIMELEMSTRIDE P name d = ELEMSTRIDE P name d * shape ! d
      \<and> BLOCKELEMSTRIDE P name d = ELEMSTRIDE P name d * block_step_of T shape ! d" for name d
    using ok look[of name]
    by (cases "info_of P name")
       (auto simp: DIMELEMSTRIDE_def ELEMSTRIDE_def BLOCKELEMSTRIDE_def info_ok_def)
  show "plan_facts P T"
    unfolding plan_facts_def
    using rel pos' ls
    by (simp add: P block_step_of_eq[OF pos'] digit_block_step_spec)
  show "pl_shape P = (if do_reverse then rev shape0 else shape0)" by (simp add: P shape_def)
  show "pl_ndim P = length shape0" by (simp add: P)
  show "prod_list (pl_shape P) = prod_list shape0" by (simp add: P shape_def)
qed












subsection \<open>The indices after one update\<close>

lemma INDEX_inc_dim_cong:
  assumes "INDEX st = INDEX st'" "pl_ndim P = pl_ndim P'" "pl_shape P = pl_shape P'"
    "pl_block_step P = pl_block_step P'"
  shows "INDEX (inc_dim P n st) = INDEX (inc_dim P' n st')"
  using assms by (simp add: inc_dim_def Let_def)

lemma INDEX_fold_inc_dim_cong:
  assumes "pl_ndim P = pl_ndim P'" "pl_shape P = pl_shape P'"
    "pl_block_step P = pl_block_step P'"
  shows "INDEX st = INDEX st' \<Longrightarrow>
     INDEX (fold (inc_dim P) ds st) = INDEX (fold (inc_dim P') ds st')"
proof (induction ds arbitrary: st st')
  case Nil
  then show ?case by simp
next
  case (Cons n ds)
  show ?case
    using Cons.IH[OF INDEX_inc_dim_cong[OF Cons.prems assms, of n]] by simp
qed

lemma INDEX_loop_inds_inc_cong:
  assumes "INDEX st = INDEX st'" "pl_ndim P = pl_ndim P'" "pl_shape P = pl_shape P'"
    "pl_block_step P = pl_block_step P'"
  shows "INDEX (loop_inds_inc P st) = INDEX (loop_inds_inc P' st')"
  unfolding loop_inds_inc_def assms(2)
  by (rule INDEX_fold_inc_dim_cong[OF assms(2,3,4)]) (simp add: assms(1))

lemma plan_facts_no_names:
  "plan_facts P T \<Longrightarrow> plan_facts (P\<lparr> pl_arrayindnames := [] \<rparr>) T"
  by (simp add: plan_facts_def ELEMSTRIDE_def DIMELEMSTRIDE_def BLOCKELEMSTRIDE_def info_of_def)

lemma int_exprs_exact_no_names: "int_exprs_exact (P\<lparr> pl_arrayindnames := [] \<rparr>)"
  by (simp add: int_exprs_exact_def)

lemma inc_fold_below:
  assumes pf: "plan_facts P T" and ex: "int_exprs_exact P"
  shows "n < pl_ndim P \<Longrightarrow> fold (inc_dim P) [0..<n] (stage P p T 0) = stage P p T n"
proof (induction n)
  case 0
  show ?case by simp
next
  case (Suc n)
  then have n: "n < pl_ndim P" by simp
  have "fold (inc_dim P) [0..<Suc n] (stage P p T 0) = inc_dim P n (stage P p T n)"
    using Suc.IH[OF n] by simp
  also have "\<dots> = stage P p T (Suc n)"
    by (rule inc_dim_stage[OF pf ex n]) (use Suc.prems in simp)
  finally show ?case .
qed

lemma INDEX_update_exact:
  assumes pf: "plan_facts P T" and ex: "int_exprs_exact P" and N: "pl_ndim P = Suc m"
  shows "INDEX (loop_inds_inc P (direct_state P p))
     = (map (digit (pl_shape P) (p + T)) [0..<Suc m])
         [m := digit (pl_shape P) (p + T) m
                 + pl_shape P ! m * carry (pl_shape P) p T (Suc m)]"
proof -
  let ?sh = "pl_shape P"
  from pf have len: "pl_ndim P = length ?sh" and pos: "\<forall>s\<in>set ?sh. 0 < s"
    and bs: "pl_block_step P = map (digit ?sh T) [0..<pl_ndim P]"
    by (simp_all add: plan_facts_def)
  have m: "m < pl_ndim P" "m < length ?sh" using N len by simp_all
  have "loop_inds_inc P (direct_state P p) = fold (inc_dim P) [0..<Suc m] (stage P p T 0)"
    unfolding loop_inds_inc_def stage_0[OF pf ex] N ..
  also have "\<dots> = inc_dim P m (stage P p T m)"
    using inc_fold_below[OF pf ex m(1), of p] by simp
  finally have e: "loop_inds_inc P (direct_state P p) = inc_dim P m (stage P p T m)" .
  have dg: "digit ?sh (p + T) m
      = digit ?sh p m + carry ?sh p T m + digit ?sh T m - ?sh ! m * carry ?sh p T (Suc m)"
    using carry_Suc(1,2)[OF pos m(2), of p T] by simp
  have "INDEX (inc_dim P m (stage P p T m))
      = (map (idxf ?sh p T m) [0..<Suc m])[m := idxf ?sh p T m m + digit ?sh T m]"
    using m by (simp add: inc_dim_def Let_def N stage_def bs del: upt_Suc)
  also have "\<dots> = (map (digit ?sh (p + T)) [0..<Suc m])
         [m := digit ?sh (p + T) m + ?sh ! m * carry ?sh p T (Suc m)]"
    by (rule nth_equalityI) (auto simp: nth_list_update idxf_def dg nth_append simp del: upt_Suc)
  finally show ?thesis unfolding e .
qed

lemma INDEX_update:
  assumes pf: "plan_facts P T" and N: "pl_ndim P = Suc m"
    and idx: "INDEX st = map (digit (pl_shape P) p) [0..<pl_ndim P]"
  shows "INDEX (loop_inds_inc P st)
     = (map (digit (pl_shape P) (p + T)) [0..<Suc m])
         [m := digit (pl_shape P) (p + T) m
                 + pl_shape P ! m * carry (pl_shape P) p T (Suc m)]"
proof -
  let ?P' = "P\<lparr> pl_arrayindnames := [] \<rparr>"
  have "INDEX (loop_inds_inc P st) = INDEX (loop_inds_inc ?P' (direct_state ?P' p))"
    by (rule INDEX_loop_inds_inc_cong) (simp_all add: idx direct_state_def)
  also have "\<dots> = (map (digit (pl_shape ?P') (p + T)) [0..<Suc m])
         [m := digit (pl_shape ?P') (p + T) m
                 + pl_shape ?P' ! m * carry (pl_shape ?P') p T (Suc m)]"
    by (rule INDEX_update_exact[OF plan_facts_no_names[OF pf] int_exprs_exact_no_names])
       (simp add: N)
  finally show ?thesis by simp
qed

lemma digit_bounds:
  assumes "\<forall>s\<in>set shape. 0 < s" "d < length shape"
  shows "0 \<le> digit shape p d" "digit shape p d < shape ! d"
  using assms by (simp_all add: digit_def)

lemma carry_01:
  assumes "\<forall>s\<in>set shape. 0 < s"
  shows "0 \<le> carry shape p T n" "carry shape p T n \<le> 1"
  using carry_bounds[OF prod_list_take_pos[OF assms, of n], of p T]
  by (simp_all add: carry_def)

subsection \<open>Arguments that share an index variable\<close>





subsection \<open>The classifier on arrays of one shape\<close>








lemma esm_xy_init:
  "init repr_example arguments_xy ''y[y_i] = x[x_i]'' ''kernel'' [] [] []
        False None None False ''K'' False = Inr esm_xy"
  by code_simp


lemma classify_f23:
  "py_classifier esm_xy [Array arr_f23, Array arr_f23]
       (self_array_arg_inds esm_xy) (self_shape_arg_index esm_xy)
     = Inr (precalc_f [2, 3] [4, 8], [Array arr_f23, Array arr_f23])"
  by code_simp

lemma classify_f44:
  "py_classifier esm_xy [Array arr_f44, Array arr_f44]
       (self_array_arg_inds esm_xy) (self_shape_arg_index esm_xy)
     = Inr (precalc_f [4, 4] [4, 16], [Array arr_f44, Array arr_f44])"
  by code_simp

lemma precalc_f_fields:
  "pc_contigmatch (precalc_f shape1 strides1)" "pc_arrayspecificinds (precalc_f shape1 strides1)"
  by (simp_all add: precalc_f_def)

lemma repr_xy:
  "repr_example \<lparr> ia_arg_names = map ad_name arguments_xy,
                  ia_arg_decls = py_join '', '' (map ad_declarator arguments_xy),
                  ia_operation = ''y[y_i] = x[x_i]'', ia_name = ''kernel'',
                  ia_preamble = [], ia_loop_prep = [], ia_after_loop = [] \<rparr>
     = ''x|y|float *x, float *y|y[y_i] = x[x_i]|kernel|||''"
  by code_simp

text \<open>
  Claim C5. For a shape in traversal order (innermost dimension first) whose sizes are
  all positive, and any thread count \<open>numthreads\<close> (in create_source,
  \<^verbatim>\<open>block[0] * grid[0]\<close>), entry \<open>d\<close> of the block step computed by the loop of lines
  284-289 is \<open>numthreads\<close> divided by the product of the sizes of dimensions
  \<open>0..d-1\<close>, rounded down, modulo \<open>shape[d]\<close>; the block step has one entry per
  dimension.
\<close>

theorem block_step_mixed_radix:
  assumes "list_all (\<lambda>s. 0 < s) shape" and "d < length shape"
  shows "block_step_of numthreads shape ! d = block_step_spec numthreads shape d
       \<and> length (block_step_of numthreads shape) = length shape"
  using assms by (simp add: block_step_of_eq list_all_iff)

theorem block_step_mixed_radix_witness:
  "list_all (\<lambda>s. 0 < s) [2, 3, 4 :: int] \<and> (1::nat) < length [2, 3, 4 :: int]
   \<and> block_step_of (4 * 2) [2, 3, 4] ! 1 = block_step_spec (4 * 2) [2, 3, 4] 1
   \<and> block_step_of (4 * 2) [2, 3, 4] ! 1 = 1
   \<and> length (block_step_of (4 * 2) [2, 3, 4]) = length [2, 3, 4 :: int]"
  using block_step_mixed_radix[of "[2, 3, 4]" 1 "4 * 2"]
  by (simp add: block_step_spec_def)









lemma plan_2x2_planned:
  "traversal_plan [2, 2] False 3 [(''x'', 4, [4, 8])] = Inr plan_2x2"
  by code_simp

lemma plan_2x2_fields:
  "pl_shape plan_2x2 = [2, 2]" "pl_block_step plan_2x2 = [1, 1]"
  by (simp_all add: plan_2x2_def)

lemma plan_2x2_start:
  "INDEX (loop_inds_calc plan_2x2 3) = [1, 1]"
  "map (digit [2, 2] 3) [0..<length [2, 2 :: int]] = [1, 1]"
  "digit [2, 2] (3 + 3) 0 = 0"
  by code_simp+

lemma plan_2x2_after:
  "INDEX (loop_inds_inc plan_2x2 (loop_inds_calc plan_2x2 3)) = [0, 3]"
  by code_simp

text \<open>
  Claim C10, as amended. Let \<open>P\<close> be the plan for a canonical shape of positive sizes and
  any thread count. Every entry of the block step satisfies
  \<open>0 \<le> block_step[d] < shape[d]\<close>. Let the indices be the digits of a flat position \<open>p\<close>
  (every index vector with \<open>0 \<le> INDEX[d] < shape[d]\<close> is of this form). After one emitted
  update (lines 396-417) the index of every dimension but the last is the digit of
  \<open>p + numthreads\<close>, inside \<open>[0, shape[d])\<close>: one conditional subtract-and-carry restores it.
  The last dimension has no subtract-and-carry (the guard \<^verbatim>\<open>dimnum < ndim - 1\<close>): its index
  is the digit of \<open>p + numthreads\<close> plus \<open>shape[d]\<close> times the carry out of the last
  dimension, which is 0 or 1, and is 0 when \<open>p + numthreads\<close> is still inside the extent of
  the shape.
\<close>

theorem carry_restores_all_but_last:
  assumes "traversal_plan shape0 do_reverse numthreads argnamestrides = Inr P"
    and "list_all (\<lambda>s. 0 < s) shape0"
    and "INDEX st = map (digit (pl_shape P) p) [0..<length shape0]"
    and "d < length shape0"
  shows "0 \<le> pl_block_step P ! d \<and> pl_block_step P ! d < pl_shape P ! d
       \<and> (d + 1 < length shape0 \<longrightarrow>
            INDEX (loop_inds_inc P st) ! d = digit (pl_shape P) (p + numthreads) d
            \<and> 0 \<le> INDEX (loop_inds_inc P st) ! d
            \<and> INDEX (loop_inds_inc P st) ! d < pl_shape P ! d)
       \<and> (d + 1 = length shape0 \<longrightarrow>
            INDEX (loop_inds_inc P st) ! d
              = digit (pl_shape P) (p + numthreads) d
                + pl_shape P ! d * carry (pl_shape P) p numthreads (length shape0)
            \<and> 0 \<le> carry (pl_shape P) p numthreads (length shape0)
            \<and> carry (pl_shape P) p numthreads (length shape0) \<le> 1
            \<and> 0 \<le> digit (pl_shape P) (p + numthreads) d
            \<and> digit (pl_shape P) (p + numthreads) d < pl_shape P ! d
            \<and> (0 \<le> p \<and> 0 \<le> numthreads \<and> p + numthreads < prod_list shape0 \<longrightarrow>
                 carry (pl_shape P) p numthreads (length shape0) = 0))"
proof -
  let ?sh = "pl_shape P"
  have pos0: "\<forall>s\<in>set shape0. 0 < s" using assms(2) by (simp add: list_all_iff)
  note tf = traversal_plan_facts[OF assms(1) pos0]
  from tf(1) have len: "pl_ndim P = length ?sh" and pos: "\<forall>s\<in>set ?sh. 0 < s"
    and bs: "pl_block_step P = map (digit ?sh numthreads) [0..<pl_ndim P]"
    by (simp_all add: plan_facts_def)
  have dl: "d < length ?sh" "d < pl_ndim P" using assms(4) tf(3) len by simp_all
  obtain m where N: "pl_ndim P = Suc m" using dl(2) by (cases "pl_ndim P") simp_all
  have idx: "INDEX st = map (digit ?sh p) [0..<pl_ndim P]" using assms(3) tf(3) by simp
  note upd = INDEX_update[OF tf(1) N idx]
  have b: "0 \<le> pl_block_step P ! d \<and> pl_block_step P ! d < ?sh ! d"
    using digit_bounds[OF pos dl(1), of numthreads] dl(2) by (simp add: bs)
  have below: "INDEX (loop_inds_inc P st) ! d = digit ?sh (p + numthreads) d" if "d < m"
    using that by (simp add: upd nth_append del: upt_Suc)
  have last: "INDEX (loop_inds_inc P st) ! d
      = digit ?sh (p + numthreads) d + ?sh ! d * carry ?sh p numthreads (Suc m)" if "d = m"
    using that by (simp add: upd del: upt_Suc)
  have c0: "carry ?sh p numthreads (length ?sh) = 0"
    if "0 \<le> p" "0 \<le> numthreads" "p + numthreads < prod_list shape0"
    by (rule carry_last[OF pos that(1,2)]) (use that(3) tf(4) in simp)
  have Nl: "length shape0 = Suc m" "length ?sh = Suc m" using N tf(3) len by simp_all
  show ?thesis
    using b below last c0 carry_01[OF pos, of p numthreads "Suc m"]
      digit_bounds[OF pos dl(1), of "p + numthreads"]
    by (auto simp: Nl)
qed

theorem carry_restores_all_but_last_witness:
  "traversal_plan [2, 2] False 3 [(''x'', 4, [4, 8])] = Inr plan_2x2
   \<and> list_all (\<lambda>s. 0 < s) [2, 2 :: int]
   \<and> INDEX (loop_inds_calc plan_2x2 3)
        = map (digit (pl_shape plan_2x2) 3) [0..<length [2, 2 :: int]]
   \<and> (0 :: nat) < length [2, 2 :: int]
   \<and> 0 \<le> pl_block_step plan_2x2 ! 0 \<and> pl_block_step plan_2x2 ! 0 < pl_shape plan_2x2 ! 0
   \<and> INDEX (loop_inds_inc plan_2x2 (loop_inds_calc plan_2x2 3)) ! 0
        = digit (pl_shape plan_2x2) (3 + 3) 0
   \<and> INDEX (loop_inds_calc plan_2x2 3) ! 0 = 1
   \<and> INDEX (loop_inds_inc plan_2x2 (loop_inds_calc plan_2x2 3)) ! 0 = 0
   \<and> INDEX (loop_inds_inc plan_2x2 (loop_inds_calc plan_2x2 3)) ! 0 < pl_shape plan_2x2 ! 0"
  using carry_restores_all_but_last
          [of "[2, 2]" False 3 "[(''x'', 4, [4, 8])]" plan_2x2 "loop_inds_calc plan_2x2 3" 3 0]
        plan_2x2_planned plan_2x2_fields plan_2x2_start plan_2x2_after
  by simp

text \<open>
  The claim as stated, that every index is restored, fails for the last dimension: for the
  2 by 2 array and 3 threads the update takes the indices \<open>[1, 1]\<close> of position 3 to
  \<open>[0, 3]\<close>.
\<close>

theorem last_index_not_restored:
  "traversal_plan [2, 2] False 3 [(''x'', 4, [4, 8])] = Inr plan_2x2
   \<and> list_all (\<lambda>s. 0 < s) [2, 2 :: int] \<and> (0 :: int) < 3
   \<and> pl_shape plan_2x2 = [2, 2] \<and> pl_block_step plan_2x2 = [1, 1]
   \<and> INDEX (loop_inds_calc plan_2x2 3) = [1, 1]
   \<and> INDEX (loop_inds_inc plan_2x2 (loop_inds_calc plan_2x2 3)) = [0, 3]
   \<and> \<not> INDEX (loop_inds_inc plan_2x2 (loop_inds_calc plan_2x2 3)) ! 1 < pl_shape plan_2x2 ! 1"
  using plan_2x2_planned plan_2x2_fields plan_2x2_start plan_2x2_after by simp









text \<open>
  Claim C2. Let \<open>self\<close> be a module constructed without \<^verbatim>\<open>do_indices\<close>, and take any two
  calls of \<^verbatim>\<open>create_key\<close> for which the classifier reports that contiguity matches or that
  array-relative indexing is unusable. Then the key of either call is
  \<^verbatim>\<open>self._init_args_repr\<close>, the \<^verbatim>\<open>repr\<close> of the tuple of the names, the declarations and the
  texts that the constructor was given, whatever the arguments, their shapes and strides,
  the grid and the block; so the two calls have the same key.
\<close>

theorem fast_path_key_is_template_identity:
  assumes "init repr arguments operation name preamble loop_prep after_loop
                do_range shape_arg_index array_arg_inds do_indices order debug = Inr self"
    and "\<not> do_indices"
    and "drv args (self_array_arg_inds self) (self_shape_arg_index self) = Inr (pc, args1)"
    and "pc_contigmatch pc \<or> \<not> pc_arrayspecificinds pc"
    and "drv args' (self_array_arg_inds self) (self_shape_arg_index self) = Inr (pc', args1')"
    and "pc_contigmatch pc' \<or> \<not> pc_arrayspecificinds pc'"
  shows "map_sum id fst (create_key drv self grid block args)
           = Inr (KeyRepr (repr \<lparr> ia_arg_names = map ad_name arguments,
                                   ia_arg_decls = py_join '', '' (map ad_declarator arguments),
                                   ia_operation = operation, ia_name = name,
                                   ia_preamble = preamble, ia_loop_prep = loop_prep,
                                   ia_after_loop = after_loop \<rparr>))
       \<and> map_sum id fst (create_key drv self grid' block' args')
           = map_sum id fst (create_key drv self grid block args)"
proof -
  from assms(1) have di: "self_do_indices self = do_indices"
    and r: "self_init_args_repr self
        = repr \<lparr> ia_arg_names = map ad_name arguments,
                 ia_arg_decls = py_join '', '' (map ad_declarator arguments),
                 ia_operation = operation, ia_name = name,
                 ia_preamble = preamble, ia_loop_prep = loop_prep,
                 ia_after_loop = after_loop \<rparr>"
    by (auto simp: init_def Let_def split: sum.splits option.splits if_splits)
  have k: "map_sum id fst (create_key drv self g b a) = Inr (KeyRepr (self_init_args_repr self))"
    if "drv a (self_array_arg_inds self) (self_shape_arg_index self) = Inr (p, a1)"
      "pc_contigmatch p \<or> \<not> pc_arrayspecificinds p" for g b a p a1
    using that di assms(2) by (simp add: create_key_def)
  show ?thesis
    using k[OF assms(3,4), of grid block] k[OF assms(5,6), of grid' block'] r by simp
qed

theorem fast_path_key_is_template_identity_witness:
  "init repr_example arguments_xy ''y[y_i] = x[x_i]'' ''kernel'' [] [] []
        False None None False ''K'' False = Inr esm_xy
   \<and> py_classifier esm_xy [Array arr_f23, Array arr_f23]
        (self_array_arg_inds esm_xy) (self_shape_arg_index esm_xy)
       = Inr (precalc_f [2, 3] [4, 8], [Array arr_f23, Array arr_f23])
   \<and> pc_contigmatch (precalc_f [2, 3] [4, 8])
   \<and> py_classifier esm_xy [Array arr_f44, Array arr_f44]
        (self_array_arg_inds esm_xy) (self_shape_arg_index esm_xy)
       = Inr (precalc_f [4, 4] [4, 16], [Array arr_f44, Array arr_f44])
   \<and> pc_contigmatch (precalc_f [4, 4] [4, 16])
   \<and> map_sum id fst (create_key (py_classifier esm_xy) esm_xy [1, 1, 1] [32, 1, 1]
                        [Array arr_f23, Array arr_f23])
       = Inr (KeyRepr ''x|y|float *x, float *y|y[y_i] = x[x_i]|kernel|||'')
   \<and> map_sum id fst (create_key (py_classifier esm_xy) esm_xy [2, 2, 1] [64, 1, 1]
                        [Array arr_f44, Array arr_f44])
       = map_sum id fst (create_key (py_classifier esm_xy) esm_xy [1, 1, 1] [32, 1, 1]
                           [Array arr_f23, Array arr_f23])"
  using fast_path_key_is_template_identity
          [of repr_example arguments_xy "''y[y_i] = x[x_i]''" "''kernel''" "[]" "[]" "[]"
              False None None False "''K''" False esm_xy
              "py_classifier esm_xy" "[Array arr_f23, Array arr_f23]"
              "precalc_f [2, 3] [4, 8]" "[Array arr_f23, Array arr_f23]"
              "[Array arr_f44, Array arr_f44]"
              "precalc_f [4, 4] [4, 16]" "[Array arr_f44, Array arr_f44]"
              "[1, 1, 1]" "[32, 1, 1]" "[2, 2, 1]" "[64, 1, 1]"]
        esm_xy_init classify_f23 classify_f44 precalc_f_fields repr_xy
  by simp




text \<open>
  Claim C7, at the input where the code departs from it. The copy kernel is called with a
  column-major and a row-major 2 by 3 array, which takes the strided path. With the grid
  (1, 1, 2) and the block (32, 1, 1) the check of line 157 passes and \<^verbatim>\<open>create_key\<close>
  returns a key, although the third component of the grid is not 1; with the grid
  (2, 2, 1), or with the block (32, 1, 2), it raises the geometry error.
\<close>

theorem grid_third_component_unchecked:
  "create_key (py_classifier esm_xy) esm_xy [1, 1, 2] [32, 1, 1] [Array arr_f23, Array arr_c23]
     = Inr (KeyTuple (keytuple_xy [1, 1, 2] [32, 1, 1]), keytuple_xy [1, 1, 2] [32, 1, 1])
   \<and> geometry_check [1, 1, 2] [32, 1, 1] = Inr ()
   \<and> create_key (py_classifier esm_xy) esm_xy [2, 2, 1] [32, 1, 1] [Array arr_f23, Array arr_c23]
     = Inl InvalidGeometry
   \<and> create_key (py_classifier esm_xy) esm_xy [1, 1, 1] [32, 1, 2] [Array arr_f23, Array arr_c23]
     = Inl InvalidGeometry"
  by code_simp

text \<open>
  Claim C8, at the input where the code departs from it. For an array followed by an
  argument without shape (a bare device pointer) the loop of lines 106-137 ends with
  array-relative indexing marked unusable, as the claim says; but line 139 then reads
  \<^verbatim>\<open>itemsize\<close> and \<^verbatim>\<open>strides\<close> of every array argument, and the classifier raises
  \<^verbatim>\<open>AttributeError\<close> instead of returning. The same happens when the pointer comes first.
\<close>

theorem opaque_argument_raises:
  "classify_args (Some 0) [0, 1]
      \<lparr> contigmatch = True, arrayspecificinds = True, cur_shape = None, cur_order = None,
        cur_args = [Array arr_f23, Opaque] \<rparr>
     = Inr \<lparr> contigmatch = True, arrayspecificinds = False, cur_shape = Some [2, 3],
             cur_order = Some ''F'', cur_args = [Array arr_f23, Opaque] \<rparr>
   \<and> arrayitemstrides_of [Array arr_f23, Opaque] [0, 1] = Inl AttributeError
   \<and> precalc_array_info esm_xy [Array arr_f23, Opaque] (Some 0) = Inl AttributeError
   \<and> precalc_array_info esm_xy [Opaque, Array arr_f23] None = Inl AttributeError"
  by code_simp

end
